theory Spec2Isabelle
  imports Complex_Main
begin

section \<open>Data model\<close>

text \<open>
  JavaScript numbers are modelled as exact reals: the development covers the arithmetic
  of the program, not the rounding of IEEE doubles.  Every place where the program
  can throw is a branch returning \<open>Inl\<close> of an \<open>error\<close>.
\<close>

datatype error = NotPositiveDefiniteError | DimensionError | TypeError

text \<open>An observation point \<^verbatim>\<open>{ x, y }\<close>.\<close>

record point =
  px :: real
  py :: real

text \<open>The coordinate bounds object \<^verbatim>\<open>{ xMin, xMax, yMin, yMax }\<close>.\<close>

record bounds =
  xMin :: real
  xMax :: real
  yMin :: real
  yMax :: real

text \<open>A stored sample \<^verbatim>\<open>{ x: [...], y: [...] }\<close>.\<close>

record sample =
  sx :: "real list"
  sy :: "real list"

text \<open>
  One slider entry of the \<^verbatim>\<open>params\<close> array of App.vue,
  \<^verbatim>\<open>{ key, label, value, min, max, step }\<close> (the label is display text only).
\<close>

record param_entry =
  p_key :: string
  p_value :: real
  p_min :: real
  p_max :: real
  p_step :: real

text \<open>
  The parameter record \<^verbatim>\<open>{ lengthScale, signalVariance, noiseLevel, kernel }\<close>.  The
  computed \<^verbatim>\<open>gpParams\<close> of App.vue builds it with the selected kernel string; the
  engine reads it with a resolved kernel identifier.
\<close>

record 'k gp_params =
  lengthScale :: real
  signalVariance :: real
  noiseLevel :: real
  kernel :: 'k

section \<open>Linear space\<close>

text \<open>
  Modelled from the spec: \<^verbatim>\<open>linspace\<close> is imported from the GP library, which is not
  among the sources.  The spec: \<^verbatim>\<open>linspace(start, end, n)\<close> is the ordered sequence of
  \<open>n\<close> reals evenly spaced from \<open>start\<close> to \<open>end\<close> inclusive; for \<open>n = 1\<close> it is
  \<^verbatim>\<open>[start]\<close>.
\<close>

definition linspace :: "real \<Rightarrow> real \<Rightarrow> nat \<Rightarrow> real list" where
  "linspace start stop n =
     (if n = 1 then [start]
      else map (\<lambda>i. start + real i * ((stop - start) / real (n - 1))) [0..<n])"

section \<open>The application component (App.vue)\<close>

record app_state =
  points :: "point list"
  selectedKernel :: string
  params :: "param_entry list"
  bounds :: bounds
  samples :: "sample list"

definition init_params :: "param_entry list" where
  "init_params =
     [\<lparr>p_key = ''lengthScale'', p_value = 1, p_min = 1/10, p_max = 3, p_step = 5/100\<rparr>,
      \<lparr>p_key = ''signalVariance'', p_value = 1, p_min = 1/10, p_max = 3, p_step = 5/100\<rparr>,
      \<lparr>p_key = ''noiseLevel'', p_value = 1/10, p_min = 1/100, p_max = 1/2, p_step = 1/100\<rparr>]"

definition init_app :: app_state where
  "init_app =
     \<lparr>points = [], selectedKernel = ''rbf'', params = init_params,
      bounds = \<lparr>xMin = -3, xMax = 3, yMin = -2, yMax = 2\<rparr>, samples = []\<rparr>"

text \<open>
  \<^verbatim>\<open>params.find(p => p.key === k).value\<close>: reading \<^verbatim>\<open>.value\<close> of \<^verbatim>\<open>undefined\<close>
  throws a TypeError when no entry has the key.
\<close>

definition find_value :: "string \<Rightarrow> param_entry list \<Rightarrow> error + real" where
  "find_value k ps =
     (case find (\<lambda>p. p_key p = k) ps of
        None \<Rightarrow> Inl TypeError
      | Some p \<Rightarrow> Inr (p_value p))"

definition gpParams :: "app_state \<Rightarrow> error + string gp_params" where
  "gpParams st =
     (case find_value ''lengthScale'' (params st) of
        Inl e \<Rightarrow> Inl e
      | Inr l \<Rightarrow>
          (case find_value ''signalVariance'' (params st) of
             Inl e \<Rightarrow> Inl e
           | Inr s \<Rightarrow>
               (case find_value ''noiseLevel'' (params st) of
                  Inl e \<Rightarrow> Inl e
                | Inr n \<Rightarrow>
                    Inr \<lparr>lengthScale = l, signalVariance = s, noiseLevel = n,
                         kernel = selectedKernel st\<rparr>)))"

definition numTest :: nat where
  "numTest = 300"

definition testX :: "app_state \<Rightarrow> real list" where
  "testX st = linspace (xMin (bounds st)) (xMax (bounds st)) numTest"

text \<open>
  The two engine entry points are imported from the GP library.  The component only
  calls them, so its model takes them as parameters: a function from the observation
  points, the grid and the parameter object to the value returned or the error thrown.
  For \<^verbatim>\<open>sampleFromGP\<close> the function stands for one invocation, random draw included.
\<close>

type_synonym 'r engine = "point list \<Rightarrow> real list \<Rightarrow> string gp_params \<Rightarrow> error + 'r"

definition posterior :: "'r engine \<Rightarrow> app_state \<Rightarrow> error + 'r" where
  "posterior computePosterior st =
     (case gpParams st of
        Inl e \<Rightarrow> Inl e
      | Inr gp \<Rightarrow> computePosterior (points st) (testX st) gp)"

definition addPoint :: "point \<Rightarrow> app_state \<Rightarrow> app_state" where
  "addPoint p st = st\<lparr>points := points st @ [p]\<rparr>"

text \<open>
  \<^verbatim>\<open>Math.random()\<close> is an input of the model: \<open>rnd k\<close> is the value of the \<open>k\<close>-th call
  made by the handler.  Iteration \<open>i\<close> of the loop makes the calls \<open>2 i\<close> (for x) and
  \<open>2 i + 1\<close> (for y).
\<close>

definition randomPoint :: "bounds \<Rightarrow> (nat \<Rightarrow> real) \<Rightarrow> nat \<Rightarrow> point" where
  "randomPoint b rnd i =
     \<lparr>px = xMin b + rnd (2 * i) * (xMax b - xMin b),
      py = yMin b + rnd (2 * i + 1) * (yMax b - yMin b)\<rparr>"

function pushRandom :: "bounds \<Rightarrow> (nat \<Rightarrow> real) \<Rightarrow> nat \<Rightarrow> point list \<Rightarrow> point list" where
  "pushRandom b rnd i pts =
     (if i < 5 then pushRandom b rnd (Suc i) (pts @ [randomPoint b rnd i]) else pts)"
  by pat_completeness auto
termination
  by (relation "measure (\<lambda>(b, rnd, i, pts). 5 - i)") auto

declare pushRandom.simps [simp del]

definition addRandomPoints :: "(nat \<Rightarrow> real) \<Rightarrow> app_state \<Rightarrow> app_state" where
  "addRandomPoints rnd st = st\<lparr>points := pushRandom (bounds st) rnd 0 (points st)\<rparr>"

text \<open>\<^verbatim>\<open>samples.push(...); if (samples.length > 5) samples.shift();\<close>\<close>

definition pushSample :: "sample \<Rightarrow> sample list \<Rightarrow> sample list" where
  "pushSample s ss = (let pushed = ss @ [s] in if length pushed > 5 then tl pushed else pushed)"

definition sampleGP :: "real list engine \<Rightarrow> app_state \<Rightarrow> error + app_state" where
  "sampleGP sampleFromGP st =
     (case gpParams st of
        Inl e \<Rightarrow> Inl e
      | Inr gp \<Rightarrow>
          (case sampleFromGP (points st) (testX st) gp of
             Inl e \<Rightarrow> Inl e
           | Inr sampleY \<Rightarrow>
               Inr (st\<lparr>samples := pushSample \<lparr>sx = testX st, sy = sampleY\<rparr> (samples st)\<rparr>)))"

definition clearAll :: "app_state \<Rightarrow> app_state" where
  "clearAll st = st\<lparr>points := [], samples := []\<rparr>"

text \<open>\<^verbatim>\<open>params[index].value = value\<close> throws a TypeError when the index is out of range.\<close>

definition updateParamValue :: "nat \<Rightarrow> real \<Rightarrow> app_state \<Rightarrow> error + app_state" where
  "updateParamValue index v st =
     (if index < length (params st)
      then Inr (st\<lparr>params := (params st)[index := (params st ! index)\<lparr>p_value := v\<rparr>]\<rparr>)
      else Inl TypeError)"

definition updateKernel :: "string \<Rightarrow> app_state \<Rightarrow> app_state" where
  "updateKernel k st = st\<lparr>selectedKernel := k\<rparr>"

definition handleBoundsChange :: "bounds \<Rightarrow> app_state \<Rightarrow> app_state" where
  "handleBoundsChange newBounds st = st\<lparr>bounds := newBounds\<rparr>"

text \<open>
  The deep watcher on \<^verbatim>\<open>[points, params, selectedKernel]\<close> empties the sample history
  when one of the three has changed.  Its callback is flushed after the handler that
  made the change and before the next event is dispatched.
\<close>

definition watcher :: "app_state \<Rightarrow> app_state \<Rightarrow> app_state" where
  "watcher old new =
     (if points new \<noteq> points old \<or> params new \<noteq> params old
         \<or> selectedKernel new \<noteq> selectedKernel old
      then new\<lparr>samples := []\<rparr> else new)"

datatype app_event =
    AddPoint point
  | AddRandomPoints "nat \<Rightarrow> real"
  | SampleGP "real list engine"
  | ClearAll
  | UpdateParamValue nat real
  | UpdateKernel string
  | HandleBoundsChange bounds

fun handler :: "app_event \<Rightarrow> app_state \<Rightarrow> error + app_state" where
  "handler (AddPoint p) st = Inr (addPoint p st)"
| "handler (AddRandomPoints rnd) st = Inr (addRandomPoints rnd st)"
| "handler (SampleGP f) st = sampleGP f st"
| "handler ClearAll st = Inr (clearAll st)"
| "handler (UpdateParamValue i v) st = updateParamValue i v st"
| "handler (UpdateKernel k) st = Inr (updateKernel k st)"
| "handler (HandleBoundsChange b) st = Inr (handleBoundsChange b st)"

text \<open>
  One event: the handler runs, then the watcher.  A handler that throws has changed
  nothing (each throws before its first assignment), and the application goes on.
\<close>

definition dispatch :: "app_event \<Rightarrow> app_state \<Rightarrow> app_state" where
  "dispatch e st = (case handler e st of Inl err \<Rightarrow> st | Inr st' \<Rightarrow> watcher st st')"

fun run :: "app_event list \<Rightarrow> app_state \<Rightarrow> app_state" where
  "run [] st = st"
| "run (e # es) st = run es (dispatch e st)"

subsection \<open>The earlier application component\<close>

text \<open>
  The sources hold a second, earlier App.vue.  It has no \<^verbatim>\<open>bounds\<close> state and no
  watcher: its handlers read a constant \<^verbatim>\<open>bounds\<close> object and empty the sample
  history themselves.  Its state is the same record, whose \<open>bounds\<close> field it never
  reads or writes.
\<close>

definition legacy_bounds :: bounds where
  "legacy_bounds = \<lparr>xMin = -3, xMax = 3, yMin = -2, yMax = 2\<rparr>"

definition legacy_addPoint :: "point \<Rightarrow> app_state \<Rightarrow> app_state" where
  "legacy_addPoint p st = st\<lparr>points := points st @ [p], samples := []\<rparr>"

definition legacy_addRandomPoints :: "(nat \<Rightarrow> real) \<Rightarrow> app_state \<Rightarrow> app_state" where
  "legacy_addRandomPoints rnd st =
     st\<lparr>points := pushRandom legacy_bounds rnd 0 (points st), samples := []\<rparr>"

definition legacy_sampleX :: "real list" where
  "legacy_sampleX = linspace (xMin legacy_bounds) (xMax legacy_bounds) 150"

definition legacy_sampleGP :: "real list engine \<Rightarrow> app_state \<Rightarrow> error + app_state" where
  "legacy_sampleGP sampleFromGP st =
     (let sampleX = legacy_sampleX in
      case gpParams st of
        Inl e \<Rightarrow> Inl e
      | Inr gp \<Rightarrow>
          (case sampleFromGP (points st) sampleX gp of
             Inl e \<Rightarrow> Inl e
           | Inr sampleY \<Rightarrow>
               Inr (st\<lparr>samples := pushSample \<lparr>sx = sampleX, sy = sampleY\<rparr> (samples st)\<rparr>)))"

definition legacy_updateKernel :: "string \<Rightarrow> app_state \<Rightarrow> app_state" where
  "legacy_updateKernel k st = st\<lparr>selectedKernel := k, samples := []\<rparr>"

datatype legacy_event =
    L_AddPoint point
  | L_AddRandomPoints "nat \<Rightarrow> real"
  | L_SampleGP "real list engine"
  | L_ClearAll
  | L_UpdateParamValue nat real
  | L_UpdateKernel string

fun legacy_handler :: "legacy_event \<Rightarrow> app_state \<Rightarrow> error + app_state" where
  "legacy_handler (L_AddPoint p) st = Inr (legacy_addPoint p st)"
| "legacy_handler (L_AddRandomPoints rnd) st = Inr (legacy_addRandomPoints rnd st)"
| "legacy_handler (L_SampleGP f) st = legacy_sampleGP f st"
| "legacy_handler L_ClearAll st = Inr (clearAll st)"
| "legacy_handler (L_UpdateParamValue i v) st = updateParamValue i v st"
| "legacy_handler (L_UpdateKernel k) st = Inr (legacy_updateKernel k st)"

definition legacy_dispatch :: "legacy_event \<Rightarrow> app_state \<Rightarrow> app_state" where
  "legacy_dispatch e st = (case legacy_handler e st of Inl err \<Rightarrow> st | Inr st' \<Rightarrow> st')"

fun legacy_run :: "legacy_event list \<Rightarrow> app_state \<Rightarrow> app_state" where
  "legacy_run [] st = st"
| "legacy_run (e # es) st = legacy_run es (legacy_dispatch e st)"

text \<open>A sampler that returns the grid it is given: it shows which grid an action passes.\<close>

definition echo :: "real list engine" where
  "echo pts grid gp = Inr grid"

section \<open>The canvas component (GPCanvas.vue)\<close>

text \<open>An object \<^verbatim>\<open>{ x, y }\<close> of canvas or data coordinates, and a touch position.\<close>

record vec =
  vx :: real
  vy :: real

text \<open>
  The component's refs and the two module variables \<^verbatim>\<open>width\<close> and \<^verbatim>\<open>height\<close>.
  The field \<open>cbounds\<close> is the ref \<^verbatim>\<open>bounds\<close> of this component.
\<close>

record canvas_state =
  cbounds :: bounds
  zoomLevel :: real
  panOffset :: vec
  isDragging :: bool
  hasDragged :: bool
  lastMousePos :: vec
  initialTouchDistance :: real
  width :: real
  height :: real

definition defaultBounds :: bounds where
  "defaultBounds = \<lparr>xMin = -3, xMax = 3, yMin = -2, yMax = 2\<rparr>"

definition init_canvas :: canvas_state where
  "init_canvas =
     \<lparr>cbounds = defaultBounds, zoomLevel = 1, panOffset = \<lparr>vx = 0, vy = 0\<rparr>,
      isDragging = False, hasDragged = False, lastMousePos = \<lparr>vx = 0, vy = 0\<rparr>,
      initialTouchDistance = 0, width = 0, height = 0\<rparr>"

definition canvas_testX :: "canvas_state \<Rightarrow> real list" where
  "canvas_testX vs = linspace (xMin (cbounds vs)) (xMax (cbounds vs)) numTest"

text \<open>
  The call \<^verbatim>\<open>computePosterior(props.points, testX.value, props.params)\<close> made by
  \<^verbatim>\<open>render\<close>, with the engine as a parameter.
\<close>

definition canvas_posterior ::
  "'r engine \<Rightarrow> point list \<Rightarrow> string gp_params \<Rightarrow> canvas_state \<Rightarrow> error + 'r" where
  "canvas_posterior computePosterior pts gp vs = computePosterior pts (canvas_testX vs) gp"

definition MAX_SCALE_FACTOR :: real where
  "MAX_SCALE_FACTOR = 4"

definition MIN_ZOOM :: real where
  "MIN_ZOOM = 1 / MAX_SCALE_FACTOR"

definition MAX_ZOOM :: real where
  "MAX_ZOOM = 3"

text \<open>The bounds are ordered: the visible range is not empty.\<close>

definition bounds_ordered :: "bounds \<Rightarrow> bool" where
  "bounds_ordered b = (xMin b < xMax b \<and> yMin b < yMax b)"

text \<open>The zoom level is within its limits.\<close>

definition zoom_ok :: "canvas_state \<Rightarrow> bool" where
  "zoom_ok vs = (MIN_ZOOM \<le> zoomLevel vs \<and> zoomLevel vs \<le> MAX_ZOOM)"

text \<open>
  The coordinate transforms.  They divide by the extent of the bounds and by the canvas
  size; the program yields a non-finite number where the divisor is zero, and what the
  model yields there is not meant: the properties of the transforms below assume
  non-zero divisors, and those of the zoom level do not depend on the quotients.
\<close>

definition toCanvasX :: "canvas_state \<Rightarrow> real \<Rightarrow> real" where
  "toCanvasX vs x =
     ((x - xMin (cbounds vs)) / (xMax (cbounds vs) - xMin (cbounds vs))) * width vs"

definition toCanvasY :: "canvas_state \<Rightarrow> real \<Rightarrow> real" where
  "toCanvasY vs y =
     height vs - ((y - yMin (cbounds vs)) / (yMax (cbounds vs) - yMin (cbounds vs))) * height vs"

definition toDataX :: "canvas_state \<Rightarrow> real \<Rightarrow> real" where
  "toDataX vs cx =
     xMin (cbounds vs) + (cx / width vs) * (xMax (cbounds vs) - xMin (cbounds vs))"

definition toDataY :: "canvas_state \<Rightarrow> real \<Rightarrow> real" where
  "toDataY vs cy =
     yMax (cbounds vs) - (cy / height vs) * (yMax (cbounds vs) - yMin (cbounds vs))"

definition setupCanvas :: "real \<Rightarrow> real \<Rightarrow> canvas_state \<Rightarrow> canvas_state" where
  "setupCanvas rectWidth rectHeight vs = vs\<lparr>width := rectWidth, height := rectHeight\<rparr>"

definition clampPanOffset :: "canvas_state \<Rightarrow> vec \<Rightarrow> vec" where
  "clampPanOffset vs offset =
     (let worldWidth = (xMax defaultBounds - xMin defaultBounds) * MAX_SCALE_FACTOR;
          worldHeight = (yMax defaultBounds - yMin defaultBounds) * MAX_SCALE_FACTOR;
          viewWidth = (xMax defaultBounds - xMin defaultBounds) / zoomLevel vs;
          viewHeight = (yMax defaultBounds - yMin defaultBounds) / zoomLevel vs;
          maxPanX = max 0 ((worldWidth - viewWidth) / 2);
          maxPanY = max 0 ((worldHeight - viewHeight) / 2)
      in \<lparr>vx = max (- maxPanX) (min maxPanX (vx offset)),
          vy = max (- maxPanY) (min maxPanY (vy offset))\<rparr>)"

definition updateBounds :: "canvas_state \<Rightarrow> canvas_state" where
  "updateBounds vs =
     (let centerX = (xMin defaultBounds + xMax defaultBounds) / 2 + vx (panOffset vs);
          centerY = (yMin defaultBounds + yMax defaultBounds) / 2 + vy (panOffset vs);
          rangeX = (xMax defaultBounds - xMin defaultBounds) / (2 * zoomLevel vs);
          rangeY = (yMax defaultBounds - yMin defaultBounds) / (2 * zoomLevel vs)
      in vs\<lparr>cbounds := \<lparr>xMin = centerX - rangeX, xMax = centerX + rangeX,
                        yMin = centerY - rangeY, yMax = centerY + rangeY\<rparr>\<rparr>)"

text \<open>
  The wheel event carries \<^verbatim>\<open>clientX\<close>, \<^verbatim>\<open>clientY\<close> and \<^verbatim>\<open>deltaY\<close>; \<open>rectLeft\<close>
  and \<open>rectTop\<close> are those of the canvas rectangle read by the handler.
\<close>

definition handleWheel ::
  "real \<Rightarrow> real \<Rightarrow> real \<Rightarrow> real \<Rightarrow> real \<Rightarrow> canvas_state \<Rightarrow> canvas_state" where
  "handleWheel clientX clientY rectLeft rectTop deltaY vs =
     (let mouseX = clientX - rectLeft;
          mouseY = clientY - rectTop;
          worldX = toDataX vs mouseX;
          worldY = toDataY vs mouseY;
          zoomFactor = (if deltaY > 0 then 9 / 10 else 11 / 10);
          newZoom = max MIN_ZOOM (min MAX_ZOOM (zoomLevel vs * zoomFactor))
      in if newZoom \<noteq> zoomLevel vs
         then
           (let vs1 = vs\<lparr>zoomLevel := newZoom\<rparr>;
                centerX = (xMin defaultBounds + xMax defaultBounds) / 2 + vx (panOffset vs1);
                centerY = (yMin defaultBounds + yMax defaultBounds) / 2 + vy (panOffset vs1);
                pan = \<lparr>vx = vx (panOffset vs1) + (worldX - centerX) * (1 - zoomFactor),
                       vy = vy (panOffset vs1) + (worldY - centerY) * (1 - zoomFactor)\<rparr>;
                vs2 = vs1\<lparr>panOffset := clampPanOffset vs1 pan\<rparr>
            in updateBounds vs2)
         else vs)"

definition handleMouseDown :: "nat \<Rightarrow> real \<Rightarrow> real \<Rightarrow> canvas_state \<Rightarrow> canvas_state" where
  "handleMouseDown detail offsetX offsetY vs =
     (if detail = 2 then vs
      else vs\<lparr>isDragging := True, hasDragged := False,
              lastMousePos := \<lparr>vx = offsetX, vy = offsetY\<rparr>\<rparr>)"

text \<open>The pan step shared by the mouse and the one-finger touch handlers.\<close>

definition panBy :: "real \<Rightarrow> real \<Rightarrow> canvas_state \<Rightarrow> canvas_state" where
  "panBy deltaX deltaY vs =
     (let pan = \<lparr>vx = vx (panOffset vs)
                    - (deltaX / width vs) * (xMax (cbounds vs) - xMin (cbounds vs)),
                 vy = vy (panOffset vs)
                    + (deltaY / height vs) * (yMax (cbounds vs) - yMin (cbounds vs))\<rparr>
      in vs\<lparr>panOffset := clampPanOffset vs pan\<rparr>)"

definition handleMouseMove :: "real \<Rightarrow> real \<Rightarrow> canvas_state \<Rightarrow> canvas_state" where
  "handleMouseMove offsetX offsetY vs =
     (if \<not> isDragging vs then vs
      else
        (let deltaX = offsetX - vx (lastMousePos vs);
             deltaY = offsetY - vy (lastMousePos vs);
             vs1 = (if \<bar>deltaX\<bar> > 1 \<or> \<bar>deltaY\<bar> > 1 then vs\<lparr>hasDragged := True\<rparr> else vs);
             vs2 = panBy deltaX deltaY vs1;
             vs3 = vs2\<lparr>lastMousePos := \<lparr>vx = offsetX, vy = offsetY\<rparr>\<rparr>
         in updateBounds vs3))"

definition handleMouseUp :: "canvas_state \<Rightarrow> canvas_state" where
  "handleMouseUp vs = vs\<lparr>isDragging := False\<rparr>"

definition handleDoubleClick :: "canvas_state \<Rightarrow> canvas_state" where
  "handleDoubleClick vs = updateBounds (vs\<lparr>zoomLevel := 1, panOffset := \<lparr>vx = 0, vy = 0\<rparr>\<rparr>)"

text \<open>The distance of the first two touches, \<^verbatim>\<open>Math.sqrt(dx * dx + dy * dy)\<close>.\<close>

definition touchDistance :: "vec list \<Rightarrow> real" where
  "touchDistance touches =
     (let dx = vx (touches ! 0) - vx (touches ! 1);
          dy = vy (touches ! 0) - vy (touches ! 1)
      in sqrt (dx * dx + dy * dy))"

definition handleTouchStart :: "vec list \<Rightarrow> canvas_state \<Rightarrow> canvas_state" where
  "handleTouchStart touches vs =
     (if length touches = 1
      then vs\<lparr>isDragging := True, lastMousePos := touches ! 0\<rparr>
      else if length touches = 2
      then vs\<lparr>initialTouchDistance := touchDistance touches\<rparr>
      else vs)"

definition handleTouchMove :: "vec list \<Rightarrow> canvas_state \<Rightarrow> canvas_state" where
  "handleTouchMove touches vs =
     (if length touches = 1 \<and> isDragging vs
      then
        (let deltaX = vx (touches ! 0) - vx (lastMousePos vs);
             deltaY = vy (touches ! 0) - vy (lastMousePos vs);
             vs2 = panBy deltaX deltaY vs;
             vs3 = vs2\<lparr>lastMousePos := touches ! 0\<rparr>
         in updateBounds vs3)
      else if length touches = 2 \<and> initialTouchDistance vs > 0
      then
        (let currentDistance = touchDistance touches;
             zoomFactor = currentDistance / initialTouchDistance vs;
             newZoom = max MIN_ZOOM (min MAX_ZOOM (zoomLevel vs * zoomFactor))
         in if newZoom \<noteq> zoomLevel vs
            then updateBounds (vs\<lparr>zoomLevel := newZoom, initialTouchDistance := currentDistance\<rparr>)
            else vs)
      else vs)"

definition handleTouchEnd :: "canvas_state \<Rightarrow> canvas_state" where
  "handleTouchEnd vs = vs\<lparr>isDragging := False, initialTouchDistance := 0\<rparr>"

text \<open>The click handler returns the new state and the point it emits, if any.\<close>

definition handleClick :: "real \<Rightarrow> real \<Rightarrow> canvas_state \<Rightarrow> canvas_state \<times> point option" where
  "handleClick offsetX offsetY vs =
     (if hasDragged vs then (vs\<lparr>hasDragged := False\<rparr>, None)
      else (vs, Some \<lparr>px = toDataX vs offsetX, py = toDataY vs offsetY\<rparr>))"

datatype canvas_event =
    Click real real
  | Wheel real real real real real
  | MouseDown nat real real
  | MouseMove real real
  | MouseUp
  | MouseLeave
  | DoubleClick
  | TouchStart "vec list"
  | TouchMove "vec list"
  | TouchEnd
  | Resize real real

fun canvas_step :: "canvas_event \<Rightarrow> canvas_state \<Rightarrow> canvas_state" where
  "canvas_step (Click ox oy) vs = fst (handleClick ox oy vs)"
| "canvas_step (Wheel cx cy l t d) vs = handleWheel cx cy l t d vs"
| "canvas_step (MouseDown n ox oy) vs = handleMouseDown n ox oy vs"
| "canvas_step (MouseMove ox oy) vs = handleMouseMove ox oy vs"
| "canvas_step MouseUp vs = handleMouseUp vs"
| "canvas_step MouseLeave vs = handleMouseUp vs"
| "canvas_step DoubleClick vs = handleDoubleClick vs"
| "canvas_step (TouchStart ts) vs = handleTouchStart ts vs"
| "canvas_step (TouchMove ts) vs = handleTouchMove ts vs"
| "canvas_step TouchEnd vs = handleTouchEnd vs"
| "canvas_step (Resize w h) vs = setupCanvas w h vs"

fun canvas_run :: "canvas_event list \<Rightarrow> canvas_state \<Rightarrow> canvas_state" where
  "canvas_run [] vs = vs"
| "canvas_run (e # es) vs = canvas_run es (canvas_step e vs)"

section \<open>The GP engine\<close>

text \<open>
  Modelled from the spec: the GP library (kernels, linear-algebra utilities,
  \<^verbatim>\<open>computePosterior\<close>) is imported by the components and is not among the sources.
  The definitions of this section follow sections 4.1 to 4.3 of the spec, in exact
  real arithmetic.
\<close>

text \<open>
  Modelled from the spec: the kernel identifier, a closed enumeration of
  \<^verbatim>\<open>rbf\<close>, \<^verbatim>\<open>matern12\<close>, \<^verbatim>\<open>matern32\<close> and \<^verbatim>\<open>matern52\<close> (section 3).
\<close>

datatype KernelId = Rbf | Matern12 | Matern32 | Matern52

text \<open>
  Modelled from the spec: the four kernels of the missing kernel library, by the table
  of section 4.2, with \<open>r = |x - x'| / l\<close>, and the resolution of the identifier to
  its kernel.
\<close>

definition rbf :: "real \<Rightarrow> real \<Rightarrow> real \<Rightarrow> real \<Rightarrow> real" where
  "rbf l s x x' = (let r = \<bar>x - x'\<bar> / l in s * exp (- (r * r) / 2))"

text \<open>Modelled from the spec: the Matern 1/2 kernel, \<open>s exp(-r)\<close>.\<close>

definition matern12 :: "real \<Rightarrow> real \<Rightarrow> real \<Rightarrow> real \<Rightarrow> real" where
  "matern12 l s x x' = (let r = \<bar>x - x'\<bar> / l in s * exp (- r))"

text \<open>Modelled from the spec: the Matern 3/2 kernel, \<open>s (1 + sqrt 3 r) exp(- sqrt 3 r)\<close>.\<close>

definition matern32 :: "real \<Rightarrow> real \<Rightarrow> real \<Rightarrow> real \<Rightarrow> real" where
  "matern32 l s x x' =
     (let r = \<bar>x - x'\<bar> / l in s * (1 + sqrt 3 * r) * exp (- (sqrt 3 * r)))"

text \<open>Modelled from the spec: the Matern 5/2 kernel, \<open>s (1 + sqrt 5 r + 5 r\<^sup>2 / 3) exp(- sqrt 5 r)\<close>.\<close>

definition matern52 :: "real \<Rightarrow> real \<Rightarrow> real \<Rightarrow> real \<Rightarrow> real" where
  "matern52 l s x x' =
     (let r = \<bar>x - x'\<bar> / l
      in s * (1 + sqrt 5 * r + 5 * (r * r) / 3) * exp (- (sqrt 5 * r)))"

text \<open>Modelled from the spec: the kernel selected by the identifier of the parameter record.\<close>

definition kernelFn :: "KernelId gp_params \<Rightarrow> real \<Rightarrow> real \<Rightarrow> real" where
  "kernelFn ps =
     (case kernel ps of
        Rbf \<Rightarrow> rbf (lengthScale ps) (signalVariance ps)
      | Matern12 \<Rightarrow> matern12 (lengthScale ps) (signalVariance ps)
      | Matern32 \<Rightarrow> matern32 (lengthScale ps) (signalVariance ps)
      | Matern52 \<Rightarrow> matern52 (lengthScale ps) (signalVariance ps))"

text \<open>
  Modelled from the spec: the dense primitives of the missing linear-algebra
  utilities.  Matrices are lists of rows.  \<open>dot\<close> sums the products over the common prefix of its
  arguments: with a row of \<open>L\<close> and a vector of \<open>j\<close> entries it is the sum over
  \<open>k < j\<close> of the substitution loops.
\<close>

type_synonym matrix = "real list list"

definition dot :: "real list \<Rightarrow> real list \<Rightarrow> real" where
  "dot u v = sum_list (map2 (*) u v)"

text \<open>Modelled from the spec: column \<open>j\<close> of a matrix, \<open>K\<^sub>*[:, j]\<close> in section 4.3.\<close>

definition column :: "matrix \<Rightarrow> nat \<Rightarrow> real list" where
  "column M j = map (\<lambda>row. row ! j) M"

text \<open>
  Modelled from the spec: \<^verbatim>\<open>cholesky\<close> of the missing linear-algebra utilities
  (section 4.1): the lower-triangular \<open>L\<close> with \<open>L L\<^sup>T = A\<close>, failing with
  \<open>NotPositiveDefiniteError\<close> when a diagonal pivot is not positive; a matrix that is
  not square is a dimension error.  The factorisation runs row by row.  With the rows
  \<open>L\<close> built so far and \<open>i\<close> their number, row \<open>i\<close> has the entries \<open>(A[i][j] - sum) / L[j][j]\<close> for \<open>j < i\<close>, then the
  square root of the pivot \<open>A[i][i] - sum\<close>; the factorisation fails when the pivot is
  not positive.
\<close>

definition row_prefix :: "matrix \<Rightarrow> matrix \<Rightarrow> nat \<Rightarrow> real list" where
  "row_prefix A L i =
     foldl (\<lambda>r j. r @ [(A ! i ! j - dot r (L ! j)) / (L ! j ! j)]) [] [0..<i]"

text \<open>Modelled from the spec: the diagonal pivot of the row that comes next.\<close>

definition chol_pivot :: "matrix \<Rightarrow> matrix \<Rightarrow> real" where
  "chol_pivot A L = (let i = length L; r = row_prefix A L i in A ! i ! i - dot r r)"

text \<open>Modelled from the spec: one row of the factorisation, or the failure on its pivot.\<close>

definition chol_step :: "matrix \<Rightarrow> matrix \<Rightarrow> error + matrix" where
  "chol_step A L =
     (let i = length L; r = row_prefix A L i; d = chol_pivot A L
      in if d \<le> 0 then Inl NotPositiveDefiniteError
         else Inr (L @ [r @ sqrt d # replicate (length A - Suc i) 0]))"

text \<open>Modelled from the spec: \<open>k\<close> further rows of the factorisation, stopping at a failure.\<close>

fun chol_loop :: "matrix \<Rightarrow> nat \<Rightarrow> matrix \<Rightarrow> error + matrix" where
  "chol_loop A 0 L = Inr L"
| "chol_loop A (Suc k) L =
     (case chol_step A L of Inl e \<Rightarrow> Inl e | Inr L' \<Rightarrow> chol_loop A k L')"

text \<open>Modelled from the spec: the shape the factorisation requires.\<close>

definition is_square :: "matrix \<Rightarrow> bool" where
  "is_square A = list_all (\<lambda>row. length row = length A) A"

text \<open>Modelled from the spec: the factorisation of all rows of a square matrix.\<close>

definition cholesky :: "matrix \<Rightarrow> error + matrix" where
  "cholesky A = (if is_square A then chol_loop A (length A) [] else Inl DimensionError)"

text \<open>
  Modelled from the spec: \<^verbatim>\<open>solveL\<close>, \<^verbatim>\<open>solveLt\<close> and \<^verbatim>\<open>choleskySolve\<close> of the
  missing linear-algebra utilities (section 4.1): forward substitution \<open>L y = b\<close>, back
  substitution \<open>L\<^sup>T x = y\<close>, and their composition.  They are meant for
  conformant shapes, which is how the engine calls them.
\<close>

definition solveL :: "matrix \<Rightarrow> real list \<Rightarrow> real list" where
  "solveL L b =
     foldl (\<lambda>y i. y @ [(b ! i - dot (L ! i) y) / (L ! i ! i)]) [] [0..<length b]"

text \<open>Modelled from the spec: back substitution, from the last row to the first.\<close>

definition solveLt :: "matrix \<Rightarrow> real list \<Rightarrow> real list" where
  "solveLt L y =
     foldr (\<lambda>i x. ((y ! i - sum_list (map2 (\<lambda>k xk. L ! k ! i * xk) [Suc i..<length y] x))
                     / (L ! i ! i)) # x)
       [0..<length y] []"

text \<open>Modelled from the spec: the two triangular solves composed, solving \<open>L L\<^sup>T x = b\<close>.\<close>

definition choleskySolve :: "matrix \<Rightarrow> real list \<Rightarrow> real list" where
  "choleskySolve L b = solveLt L (solveL L b)"

text \<open>
  Modelled from the spec: the covariance matrices built by the missing engine
  (section 4.3, step 2): \<open>K[i][j] = k(x\<^sub>i, x\<^sub>j)\<close> plus the squared noise level on the
  diagonal, and \<open>K\<^sub>*[i][j] = k(x\<^sub>i, testX\<^sub>j)\<close>.
\<close>

definition covK :: "KernelId gp_params \<Rightarrow> real list \<Rightarrow> matrix" where
  "covK ps xs =
     map (\<lambda>i. map (\<lambda>j. kernelFn ps (xs ! i) (xs ! j)
                      + (if i = j then noiseLevel ps * noiseLevel ps else 0))
                [0..<length xs])
       [0..<length xs]"

text \<open>Modelled from the spec: the cross-covariance \<open>K\<^sub>*\<close> of observations and test points.\<close>

definition crossK :: "KernelId gp_params \<Rightarrow> real list \<Rightarrow> real list \<Rightarrow> matrix" where
  "crossK ps xs ts =
     map (\<lambda>i. map (\<lambda>j. kernelFn ps (xs ! i) (ts ! j)) [0..<length ts]) [0..<length xs]"

text \<open>Modelled from the spec: the posterior result \<^verbatim>\<open>{ mean, variance }\<close> (section 3).\<close>

record posterior_result =
  mean :: "real list"
  variance :: "real list"

text \<open>
  Modelled from the spec: step 2 of \<^verbatim>\<open>computePosterior\<close> of the missing engine
  (section 4.3): factor \<open>K\<close>, solve for \<open>alpha\<close>, the mean is \<open>K\<^sub>*\<^sup>T alpha\<close>, and the
  variance at test point \<open>j\<close> is \<open>k(testX\<^sub>j, testX\<^sub>j) - v\<^sub>j\<^sup>T v\<^sub>j\<close> with
  \<open>v\<^sub>j = solveL(L, K\<^sub>*[:, j])\<close>, clamped at 0.  A failure of the factorisation is
  returned as it is.
\<close>

definition posteriorFromData ::
  "KernelId gp_params \<Rightarrow> real list \<Rightarrow> real list \<Rightarrow> real list \<Rightarrow> error + posterior_result" where
  "posteriorFromData ps xs ys ts =
     (case cholesky (covK ps xs) of
        Inl e \<Rightarrow> Inl e
      | Inr L \<Rightarrow>
          (let Ks = crossK ps xs ts;
               alpha = choleskySolve L ys
           in Inr \<lparr>mean = map (\<lambda>j. dot (column Ks j) alpha) [0..<length ts],
                   variance =
                     map (\<lambda>j. let v = solveL L (column Ks j)
                               in max 0 (kernelFn ps (ts ! j) (ts ! j) - dot v v))
                       [0..<length ts]\<rparr>))"

text \<open>
  Modelled from the spec: \<^verbatim>\<open>computePosterior\<close> of the missing engine (section 4.3):
  with no observations the prior, mean 0 and variance \<open>signalVariance\<close> at every test
  point (step 1); otherwise step 2.
\<close>

definition computePosterior ::
  "point list \<Rightarrow> real list \<Rightarrow> KernelId gp_params \<Rightarrow> error + posterior_result" where
  "computePosterior observations ts ps =
     (if observations = []
      then Inr \<lparr>mean = map (\<lambda>t. 0) ts, variance = map (\<lambda>t. signalVariance ps) ts\<rparr>
      else posteriorFromData ps (map px observations) (map py observations) ts)"

text \<open>
  Modelled from the spec: the jitter added to the diagonal of the sample covariance
  before it is factorised (section 4.3, \<^verbatim>\<open>sampleFromGP\<close> step 1), \<^verbatim>\<open>1e-6\<close>.
\<close>

definition jitter :: real where
  "jitter = 1 / 1000000"

definition addJitter :: "matrix \<Rightarrow> matrix" where
  "addJitter S =
     map (\<lambda>a. map (\<lambda>b. S ! a ! b + (if a = b then jitter else 0)) [0..<length S])
       [0..<length S]"

text \<open>
  Modelled from the spec: step 1 of \<^verbatim>\<open>sampleFromGP\<close> of the missing engine (section
  4.3), the mean and the full covariance at the sample points.  With no observations
  they are those of the prior, mean 0 and \<open>K(sampleX, sampleX)\<close>; otherwise the mean is
  \<open>K\<^sub>*\<^sup>T alpha\<close> and the covariance is
  \<open>K(sampleX, sampleX) - K\<^sub>*\<^sup>T L\<^sup>-\<^sup>T L\<^sup>-\<^sup>1 K\<^sub>*\<close>, whose entry \<open>(a, b)\<close> is
  \<open>k(sampleX\<^sub>a, sampleX\<^sub>b) - v\<^sub>a\<^sup>T v\<^sub>b\<close> with \<open>v\<^sub>j = solveL(L, K\<^sub>*[:, j])\<close>.  A failure of
  the factorisation of \<open>K\<close> is returned as it is.
\<close>

definition posteriorMoments ::
  "KernelId gp_params \<Rightarrow> point list \<Rightarrow> real list \<Rightarrow> error + real list \<times> matrix" where
  "posteriorMoments ps observations ts =
     (if observations = []
      then Inr (map (\<lambda>t. 0) ts,
                map (\<lambda>a. map (\<lambda>b. kernelFn ps (ts ! a) (ts ! b)) [0..<length ts])
                  [0..<length ts])
      else
        (case cholesky (covK ps (map px observations)) of
           Inl e \<Rightarrow> Inl e
         | Inr L \<Rightarrow>
             (let Ks = crossK ps (map px observations) ts;
                  alpha = choleskySolve L (map py observations);
                  V = map (\<lambda>j. solveL L (column Ks j)) [0..<length ts]
              in Inr (map (\<lambda>j. dot (column Ks j) alpha) [0..<length ts],
                      map (\<lambda>a. map (\<lambda>b. kernelFn ps (ts ! a) (ts ! b) - dot (V ! a) (V ! b))
                                 [0..<length ts])
                        [0..<length ts]))))"

text \<open>
  Modelled from the spec: \<^verbatim>\<open>sampleFromGP\<close> of the missing engine (section 4.3): the
  mean and covariance at the sample points, the factor \<open>L\<^sub>\<Sigma>\<close> of the covariance with
  the jitter on its diagonal, and the sample \<open>mean + L\<^sub>\<Sigma> z\<close>.  The standard-normal
  variates are an input of the model: \<open>z i\<close> is the \<open>i\<close>-th variate drawn by the call.
  A failure of either factorisation is returned as it is.
\<close>

definition sampleFromGP ::
  "point list \<Rightarrow> real list \<Rightarrow> KernelId gp_params \<Rightarrow> (nat \<Rightarrow> real) \<Rightarrow> error + real list" where
  "sampleFromGP observations sampleX ps z =
     (case posteriorMoments ps observations sampleX of
        Inl e \<Rightarrow> Inl e
      | Inr (mu, S) \<Rightarrow>
          (case cholesky (addJitter S) of
             Inl e \<Rightarrow> Inl e
           | Inr LS \<Rightarrow>
               Inr (map (\<lambda>i. mu ! i + dot (LS ! i) (map z [0..<length sampleX]))
                      [0..<length sampleX])))"

text \<open>
  Modelled from the spec: the ranges of a valid parameter record (section 3),
  \<open>lengthScale > 0\<close>, \<open>signalVariance > 0\<close> and \<open>noiseLevel \<ge> 0\<close>.
\<close>

definition valid_params :: "'k gp_params \<Rightarrow> bool" where
  "valid_params ps = (0 < lengthScale ps \<and> 0 < signalVariance ps \<and> 0 \<le> noiseLevel ps)"

section \<open>Properties of the application component\<close>

lemma pushRandom_append:
  "pushRandom b rnd i pts = pts @ map (randomPoint b rnd) [i..<5]"
proof (induction b rnd i pts rule: pushRandom.induct)
  case (1 b rnd i pts)
  show ?case
  proof (cases "i < 5")
    case True
    then have "[i..<5] = i # [Suc i..<5]"
      by (simp add: upt_conv_Cons)
    with True "1" show ?thesis
      by (subst pushRandom.simps) simp
  next
    case False
    then show ?thesis
      by (subst pushRandom.simps) simp
  qed
qed

lemma points_watcher: "points (watcher old new) = points new"
  by (simp add: watcher_def)

lemma points_dispatch_cases:
  "points (dispatch e st) =
     (case e of
        AddPoint p \<Rightarrow> points st @ [p]
      | AddRandomPoints rnd \<Rightarrow> points st @ map (randomPoint (bounds st) rnd) [0..<5]
      | ClearAll \<Rightarrow> []
      | _ \<Rightarrow> points st)"
  by (cases e)
     (auto simp: dispatch_def points_watcher addPoint_def addRandomPoints_def
        pushRandom_append clearAll_def sampleGP_def updateParamValue_def updateKernel_def
        handleBoundsChange_def split: sum.splits)

lemma points_run_no_clear:
  "ClearAll \<notin> set es \<Longrightarrow> \<exists>new. points (run es st) = points st @ new"
proof (induction es arbitrary: st)
  case Nil
  then show ?case by simp
next
  case (Cons e es)
  then have "e \<noteq> ClearAll" and "ClearAll \<notin> set es" by auto
  from Cons.IH [OF this(2), of "dispatch e st"] obtain new where
    new: "points (run es (dispatch e st)) = points (dispatch e st) @ new" by blast
  from \<open>e \<noteq> ClearAll\<close> obtain add where "points (dispatch e st) = points st @ add"
    by (cases e) (simp_all add: points_dispatch_cases)
  with new show ?case by simp
qed

text \<open>
  C7.  What each operation of the application does to the observation points:
  \<^verbatim>\<open>addPoint\<close> appends the one point it is given and \<^verbatim>\<open>addRandomPoints\<close> appends its
  five new points, both behind the existing points, which stay as they are and in their
  order; \<^verbatim>\<open>clearAll\<close> empties the whole set; sampling, a parameter change, a kernel
  change and a bounds change leave the points as they are.  So no operation changes an
  existing point or removes a proper part of the set, and points are removed only by
  the clear action: after any sequence of operations without it, the points the
  sequence started from are still there, in front and unchanged.
\<close>

theorem points_append_or_clear:
  "points (dispatch (AddPoint p) st) = points st @ [p]
   \<and> points (dispatch (AddRandomPoints rnd) st)
       = points st @ map (randomPoint (bounds st) rnd) [0..<5]
   \<and> points (dispatch ClearAll st) = []
   \<and> points (dispatch (SampleGP f) st) = points st
   \<and> points (dispatch (UpdateParamValue i v) st) = points st
   \<and> points (dispatch (UpdateKernel k) st) = points st
   \<and> points (dispatch (HandleBoundsChange b) st) = points st
   \<and> (ClearAll \<notin> set es \<longrightarrow> (\<exists>new. points (run es st) = points st @ new))"
  using points_run_no_clear [of es st] by (simp add: points_dispatch_cases)

theorem points_append_or_clear_witness:
  "ClearAll \<notin> set [AddPoint \<lparr>px = 1, py = 2\<rparr>, UpdateKernel ''matern32'', SampleGP echo,
       AddPoint \<lparr>px = 0, py = 1\<rparr>]
   \<and> points (run [AddPoint \<lparr>px = 1, py = 2\<rparr>, UpdateKernel ''matern32'', SampleGP echo,
       AddPoint \<lparr>px = 0, py = 1\<rparr>] init_app) = [\<lparr>px = 1, py = 2\<rparr>, \<lparr>px = 0, py = 1\<rparr>]
   \<and> points (dispatch ClearAll (run [AddPoint \<lparr>px = 1, py = 2\<rparr>] init_app)) = []"
  using points_append_or_clear
    [where es = "[AddPoint \<lparr>px = 1, py = 2\<rparr>, UpdateKernel ''matern32'', SampleGP echo,
       AddPoint \<lparr>px = 0, py = 1\<rparr>]" and st = init_app]
  by (simp add: points_dispatch_cases init_app_def)

subsection \<open>The sample history\<close>

lemma length_pushSample: "length ss \<le> 5 \<Longrightarrow> length (pushSample s ss) \<le> 5"
  by (simp add: pushSample_def Let_def)

lemma pushSample_eq:
  "length ss \<le> 5 \<Longrightarrow> pushSample s ss = (if length ss = 5 then tl ss else ss) @ [s]"
  by (cases ss) (auto simp: pushSample_def Let_def)

lemma samples_sampleGP:
  "sampleGP f st = Inr st' \<Longrightarrow>
     \<exists>gp y. gpParams st = Inr gp \<and> f (points st) (testX st) gp = Inr y
       \<and> st' = st\<lparr>samples := pushSample \<lparr>sx = testX st, sy = y\<rparr> (samples st)\<rparr>"
  by (auto simp: sampleGP_def split: sum.splits)

lemma samples_legacy_sampleGP:
  "legacy_sampleGP f st = Inr st' \<Longrightarrow>
     \<exists>gp y. gpParams st = Inr gp \<and> f (points st) legacy_sampleX gp = Inr y
       \<and> st' = st\<lparr>samples := pushSample \<lparr>sx = legacy_sampleX, sy = y\<rparr> (samples st)\<rparr>"
  by (auto simp: legacy_sampleGP_def Let_def split: sum.splits)

lemma cap_handler:
  "length (samples st) \<le> 5 \<Longrightarrow> handler e st = Inr st' \<Longrightarrow> length (samples st') \<le> 5"
  by (cases e)
     (auto simp: addPoint_def addRandomPoints_def clearAll_def updateParamValue_def
        updateKernel_def handleBoundsChange_def length_pushSample
        dest!: samples_sampleGP split: if_splits)

lemma cap_watcher: "length (samples new) \<le> 5 \<Longrightarrow> length (samples (watcher old new)) \<le> 5"
  by (simp add: watcher_def)

lemma cap_dispatch: "length (samples st) \<le> 5 \<Longrightarrow> length (samples (dispatch e st)) \<le> 5"
  by (auto simp: dispatch_def split: sum.splits intro: cap_watcher cap_handler)

lemma cap_run: "length (samples st) \<le> 5 \<Longrightarrow> length (samples (run es st)) \<le> 5"
  by (induction es arbitrary: st) (simp_all add: cap_dispatch)

lemma cap_legacy_dispatch:
  "length (samples st) \<le> 5 \<Longrightarrow> length (samples (legacy_dispatch e st)) \<le> 5"
  by (cases e)
     (auto simp: legacy_dispatch_def legacy_addPoint_def legacy_addRandomPoints_def
        clearAll_def updateParamValue_def legacy_updateKernel_def length_pushSample
        dest!: samples_legacy_sampleGP split: sum.splits if_splits)

lemma cap_legacy_run:
  "length (samples st) \<le> 5 \<Longrightarrow> length (samples (legacy_run es st)) \<le> 5"
  by (induction es arbitrary: st) (simp_all add: cap_legacy_dispatch)

lemma dispatch_SampleGP:
  "sampleGP f st = Inr st' \<Longrightarrow> dispatch (SampleGP f) st = st'"
  by (auto simp: dispatch_def watcher_def dest!: samples_sampleGP)

text \<open>
  C4.  The sample history holds at most 5 samples: the bound holds after every
  sequence of operations from the initial state, in the current and in the earlier
  component, and every single operation preserves it.  A sample action that returns
  appends exactly one sample \<^verbatim>\<open>{x, y}\<close> behind the history, and when the history
  already holds 5 the oldest sample, the head of the list, is dropped.
\<close>

theorem sample_history_capped:
  assumes "length (samples st) \<le> 5"
  shows "length (samples (run es init_app)) \<le> 5
    \<and> length (samples (legacy_run les init_app)) \<le> 5
    \<and> length (samples (dispatch e st)) \<le> 5
    \<and> length (samples (legacy_dispatch le st)) \<le> 5
    \<and> (\<forall>st'. sampleGP f st = Inr st' \<longrightarrow>
          dispatch (SampleGP f) st = st' \<and>
          (\<exists>y. samples st' =
             (if length (samples st) = 5 then tl (samples st) else samples st)
               @ [\<lparr>sx = testX st, sy = y\<rparr>]))
    \<and> (\<forall>st'. legacy_sampleGP f st = Inr st' \<longrightarrow>
          (\<exists>y. samples st' =
             (if length (samples st) = 5 then tl (samples st) else samples st)
               @ [\<lparr>sx = legacy_sampleX, sy = y\<rparr>]))"
proof -
  have init: "length (samples init_app) \<le> 5"
    by (simp add: init_app_def)
  have a: "length (samples (run es init_app)) \<le> 5"
    using init by (rule cap_run)
  have b: "length (samples (legacy_run les init_app)) \<le> 5"
    using init by (rule cap_legacy_run)
  have c: "length (samples (dispatch e st)) \<le> 5"
    using assms by (rule cap_dispatch)
  have d: "length (samples (legacy_dispatch le st)) \<le> 5"
    using assms by (rule cap_legacy_dispatch)
  have e: "\<forall>st'. sampleGP f st = Inr st' \<longrightarrow>
          dispatch (SampleGP f) st = st' \<and>
          (\<exists>y. samples st' =
             (if length (samples st) = 5 then tl (samples st) else samples st)
               @ [\<lparr>sx = testX st, sy = y\<rparr>])"
  proof (intro allI impI conjI)
    fix st' assume ok: "sampleGP f st = Inr st'"
    then show "dispatch (SampleGP f) st = st'"
      by (rule dispatch_SampleGP)
    from samples_sampleGP [OF ok] obtain y where
      "samples st' = pushSample \<lparr>sx = testX st, sy = y\<rparr> (samples st)"
      by auto
    with assms show "\<exists>y. samples st' =
             (if length (samples st) = 5 then tl (samples st) else samples st)
               @ [\<lparr>sx = testX st, sy = y\<rparr>]"
      by (auto simp: pushSample_eq)
  qed
  have g: "\<forall>st'. legacy_sampleGP f st = Inr st' \<longrightarrow>
          (\<exists>y. samples st' =
             (if length (samples st) = 5 then tl (samples st) else samples st)
               @ [\<lparr>sx = legacy_sampleX, sy = y\<rparr>])"
  proof (intro allI impI)
    fix st' assume ok: "legacy_sampleGP f st = Inr st'"
    from samples_legacy_sampleGP [OF ok] obtain y where
      "samples st' = pushSample \<lparr>sx = legacy_sampleX, sy = y\<rparr> (samples st)"
      by auto
    with assms show "\<exists>y. samples st' =
             (if length (samples st) = 5 then tl (samples st) else samples st)
               @ [\<lparr>sx = legacy_sampleX, sy = y\<rparr>]"
      by (auto simp: pushSample_eq)
  qed
  from a b c d e g show ?thesis by blast
qed

theorem sample_history_capped_witness:
  "length (samples (init_app\<lparr>samples :=
       [\<lparr>sx = [1], sy = [1]\<rparr>, \<lparr>sx = [2], sy = [2]\<rparr>, \<lparr>sx = [3], sy = [3]\<rparr>,
        \<lparr>sx = [4], sy = [4]\<rparr>, \<lparr>sx = [5], sy = [5]\<rparr>]\<rparr>)) \<le> 5
   \<and> (\<exists>st'. sampleGP echo (init_app\<lparr>samples :=
       [\<lparr>sx = [1], sy = [1]\<rparr>, \<lparr>sx = [2], sy = [2]\<rparr>, \<lparr>sx = [3], sy = [3]\<rparr>,
        \<lparr>sx = [4], sy = [4]\<rparr>, \<lparr>sx = [5], sy = [5]\<rparr>]\<rparr>) = Inr st'
      \<and> samples st' =
        [\<lparr>sx = [2], sy = [2]\<rparr>, \<lparr>sx = [3], sy = [3]\<rparr>, \<lparr>sx = [4], sy = [4]\<rparr>,
         \<lparr>sx = [5], sy = [5]\<rparr>, \<lparr>sx = testX init_app, sy = testX init_app\<rparr>]
      \<and> length (samples st') \<le> 5)
   \<and> (\<exists>st'. legacy_sampleGP echo (init_app\<lparr>samples :=
       [\<lparr>sx = [1], sy = [1]\<rparr>, \<lparr>sx = [2], sy = [2]\<rparr>, \<lparr>sx = [3], sy = [3]\<rparr>,
        \<lparr>sx = [4], sy = [4]\<rparr>, \<lparr>sx = [5], sy = [5]\<rparr>]\<rparr>) = Inr st'
      \<and> samples st' =
        [\<lparr>sx = [2], sy = [2]\<rparr>, \<lparr>sx = [3], sy = [3]\<rparr>, \<lparr>sx = [4], sy = [4]\<rparr>,
         \<lparr>sx = [5], sy = [5]\<rparr>, \<lparr>sx = legacy_sampleX, sy = legacy_sampleX\<rparr>])"
  using sample_history_capped
    [of "init_app\<lparr>samples :=
       [\<lparr>sx = [1], sy = [1]\<rparr>, \<lparr>sx = [2], sy = [2]\<rparr>, \<lparr>sx = [3], sy = [3]\<rparr>,
        \<lparr>sx = [4], sy = [4]\<rparr>, \<lparr>sx = [5], sy = [5]\<rparr>]\<rparr>"
      "[]" "[]" "SampleGP echo" "L_SampleGP echo" echo]
  by (simp add: sampleGP_def legacy_sampleGP_def gpParams_def find_value_def init_app_def
      init_params_def echo_def testX_def pushSample_def)

subsection \<open>Random points\<close>

lemma scaled_in_range:
  fixes a b u :: real
  assumes "0 \<le> u" and "u < 1" and "a \<le> b"
  shows "a \<le> a + u * (b - a) \<and> a + u * (b - a) \<le> b"
proof
  from assms have "0 \<le> u * (b - a)"
    by (simp add: mult_nonneg_nonneg)
  then show "a \<le> a + u * (b - a)" by simp
next
  from assms have "u * (b - a) \<le> 1 * (b - a)"
    by (intro mult_right_mono) simp_all
  then show "a + u * (b - a) \<le> b" by simp
qed

lemma randomPoint_in_bounds:
  assumes "\<forall>k. 0 \<le> rnd k \<and> rnd k < 1" and "xMin b \<le> xMax b" and "yMin b \<le> yMax b"
  shows "xMin b \<le> px (randomPoint b rnd i) \<and> px (randomPoint b rnd i) \<le> xMax b
    \<and> yMin b \<le> py (randomPoint b rnd i) \<and> py (randomPoint b rnd i) \<le> yMax b"
proof -
  from assms have x: "0 \<le> rnd (2 * i)" "rnd (2 * i) < 1"
    and y: "0 \<le> rnd (2 * i + 1)" "rnd (2 * i + 1) < 1"
    by blast+
  from scaled_in_range [OF x assms(2)] scaled_in_range [OF y assms(3)]
  show ?thesis by (simp add: randomPoint_def)
qed

text \<open>
  C10.  \<^verbatim>\<open>addRandomPoints\<close> appends exactly 5 new points behind the existing ones, which
  stay as they are and in their order, so the point count grows by exactly 5.  With the
  draws of \<^verbatim>\<open>Math.random()\<close> in \<open>[0, 1)\<close> and the current bounds ordered
  (\<open>xMin \<le> xMax\<close>, \<open>yMin \<le> yMax\<close>), each new point has its x in \<open>[xMin, xMax]\<close> and its
  y in \<open>[yMin, yMax]\<close>.  The same holds in the earlier component for its constant bounds.
\<close>

theorem addRandomPoints_appends_five:
  assumes "\<forall>k. 0 \<le> rnd k \<and> rnd k < 1"
    and "xMin (bounds st) \<le> xMax (bounds st)"
    and "yMin (bounds st) \<le> yMax (bounds st)"
  shows "(\<exists>new. points (addRandomPoints rnd st) = points st @ new \<and> length new = 5
      \<and> list_all (\<lambda>p. xMin (bounds st) \<le> px p \<and> px p \<le> xMax (bounds st)
                    \<and> yMin (bounds st) \<le> py p \<and> py p \<le> yMax (bounds st)) new)
    \<and> length (points (addRandomPoints rnd st)) = length (points st) + 5
    \<and> points (dispatch (AddRandomPoints rnd) st) = points (addRandomPoints rnd st)
    \<and> bounds (addRandomPoints rnd st) = bounds st
    \<and> (\<exists>new. points (legacy_addRandomPoints rnd st) = points st @ new \<and> length new = 5
      \<and> list_all (\<lambda>p. -3 \<le> px p \<and> px p \<le> 3 \<and> -2 \<le> py p \<and> py p \<le> 2) new)"
proof -
  let ?new = "map (randomPoint (bounds st) rnd) [0..<5]"
  have eq: "points (addRandomPoints rnd st) = points st @ ?new"
    by (simp add: addRandomPoints_def pushRandom_append)
  have len: "length ?new = 5" by simp
  have inb: "list_all (\<lambda>p. xMin (bounds st) \<le> px p \<and> px p \<le> xMax (bounds st)
                    \<and> yMin (bounds st) \<le> py p \<and> py p \<le> yMax (bounds st)) ?new"
    unfolding list_all_iff using randomPoint_in_bounds [OF assms] by auto
  have a: "\<exists>new. points (addRandomPoints rnd st) = points st @ new \<and> length new = 5
      \<and> list_all (\<lambda>p. xMin (bounds st) \<le> px p \<and> px p \<le> xMax (bounds st)
                    \<and> yMin (bounds st) \<le> py p \<and> py p \<le> yMax (bounds st)) new"
    using eq len inb by blast
  have b: "length (points (addRandomPoints rnd st)) = length (points st) + 5"
    by (simp add: eq)
  have c: "points (dispatch (AddRandomPoints rnd) st) = points (addRandomPoints rnd st)"
    by (simp add: dispatch_def points_watcher)
  have d: "bounds (addRandomPoints rnd st) = bounds st"
    by (simp add: addRandomPoints_def)
  let ?lnew = "map (randomPoint legacy_bounds rnd) [0..<5]"
  have leq: "points (legacy_addRandomPoints rnd st) = points st @ ?lnew"
    by (simp add: legacy_addRandomPoints_def pushRandom_append)
  have lb: "xMin legacy_bounds \<le> xMax legacy_bounds" "yMin legacy_bounds \<le> yMax legacy_bounds"
    by (simp_all add: legacy_bounds_def)
  have linb: "list_all (\<lambda>p. -3 \<le> px p \<and> px p \<le> 3 \<and> -2 \<le> py p \<and> py p \<le> 2) ?lnew"
    unfolding list_all_iff using randomPoint_in_bounds [OF assms(1) lb]
    by (auto simp: legacy_bounds_def)
  have e: "\<exists>new. points (legacy_addRandomPoints rnd st) = points st @ new \<and> length new = 5
      \<and> list_all (\<lambda>p. -3 \<le> px p \<and> px p \<le> 3 \<and> -2 \<le> py p \<and> py p \<le> 2) new"
    using leq linb by (intro exI [of _ ?lnew]) simp
  from a b c d e show ?thesis by blast
qed

theorem addRandomPoints_appends_five_witness:
  "(\<forall>k. (0::real) \<le> 1 / 2 \<and> (1::real) / 2 < 1)
   \<and> xMin (bounds init_app) \<le> xMax (bounds init_app)
   \<and> yMin (bounds init_app) \<le> yMax (bounds init_app)
   \<and> points (addRandomPoints (\<lambda>k. 1 / 2) init_app) = replicate 5 \<lparr>px = 0, py = 0\<rparr>
   \<and> length (points (addRandomPoints (\<lambda>k. 1 / 2) init_app)) = 5"
  using addRandomPoints_appends_five [of "\<lambda>k. 1 / 2" init_app]
  by (simp add: addRandomPoints_def pushRandom_append init_app_def randomPoint_def
      upt_conv_Cons numeral_eq_Suc)

subsection \<open>The grids\<close>

lemma length_linspace: "length (linspace a b n) = n"
  by (simp add: linspace_def)

lemma nth_linspace:
  "i < n \<Longrightarrow> linspace a b n ! i = a + real i * ((b - a) / real (n - 1))"
  by (auto simp: linspace_def)

lemma hd_linspace:
  assumes "0 < n"
  shows "hd (linspace a b n) = a"
proof -
  have "linspace a b n \<noteq> []"
    using assms length_linspace [of a b n] by auto
  then have "hd (linspace a b n) = linspace a b n ! 0"
    by (rule hd_conv_nth)
  also have "\<dots> = a"
    using nth_linspace [OF assms, of a b] by simp
  finally show ?thesis .
qed

lemma last_linspace:
  assumes "2 \<le> n"
  shows "last (linspace a b n) = b"
proof -
  have ne: "linspace a b n \<noteq> []"
    using assms length_linspace [of a b n] by auto
  have "last (linspace a b n) = linspace a b n ! (n - 1)"
    using ne by (simp add: last_conv_nth length_linspace)
  also have "\<dots> = a + real (n - 1) * ((b - a) / real (n - 1))"
    using assms by (intro nth_linspace) simp
  also have "\<dots> = b"
    using assms by simp
  finally show ?thesis .
qed

lemma linspace_spacing:
  assumes "Suc i < n"
  shows "linspace a b n ! Suc i - linspace a b n ! i = (b - a) / real (n - 1)"
proof -
  define c where "c = (b - a) / real (n - 1)"
  have "linspace a b n ! Suc i = a + real (Suc i) * c"
    unfolding c_def using assms by (rule nth_linspace)
  moreover have "linspace a b n ! i = a + real i * c"
    unfolding c_def using assms by (intro nth_linspace) simp
  ultimately have "linspace a b n ! Suc i - linspace a b n ! i = c"
    by (simp add: distrib_right)
  then show ?thesis
    by (simp only: c_def)
qed

lemma linspace_strict:
  assumes "a < b"
  shows "sorted_wrt (<) (linspace a b n)"
proof (cases "n = 1")
  case True
  then show ?thesis by (simp add: linspace_def)
next
  case False
  define c where "c = (b - a) / real (n - 1)"
  show ?thesis
  proof (unfold sorted_wrt_iff_nth_less, intro allI impI)
    fix i j assume ij: "i < j" and j: "j < length (linspace a b n)"
    then have jn: "j < n" and "i < n" by (simp_all add: length_linspace)
    with False have "1 < n" by simp
    then have pos: "0 < c"
      using assms by (simp add: c_def)
    have "real i < real j" using ij by simp
    then have "real i * c < real j * c"
      using pos by (rule mult_strict_right_mono)
    moreover have "linspace a b n ! i = a + real i * c"
      unfolding c_def using \<open>i < n\<close> by (rule nth_linspace)
    moreover have "linspace a b n ! j = a + real j * c"
      unfolding c_def using jn by (rule nth_linspace)
    ultimately show "linspace a b n ! i < linspace a b n ! j"
      by simp
  qed
qed

lemma display_grid:
  assumes "a < b"
  shows "length (linspace a b numTest) = 300
    \<and> sorted_wrt (<) (linspace a b numTest)
    \<and> list_all (\<lambda>i. linspace a b numTest ! Suc i - linspace a b numTest ! i = (b - a) / 299)
        [0..<299]
    \<and> hd (linspace a b numTest) = a
    \<and> last (linspace a b numTest) = b"
proof -
  have "list_all (\<lambda>i. linspace a b numTest ! Suc i - linspace a b numTest ! i = (b - a) / 299)
        [0..<299]"
    unfolding list_all_iff
  proof
    fix i assume "i \<in> set [0..<299]"
    then have "Suc i < numTest" by (simp add: numTest_def)
    from linspace_spacing [OF this, of a b]
    show "linspace a b numTest ! Suc i - linspace a b numTest ! i = (b - a) / 299"
      by (simp add: numTest_def)
  qed
  moreover have "hd (linspace a b numTest) = a"
    by (rule hd_linspace) (simp add: numTest_def)
  moreover have "last (linspace a b numTest) = b"
    by (rule last_linspace) (simp add: numTest_def)
  ultimately show ?thesis
    using linspace_strict [OF assms, of numTest]
    by (simp add: length_linspace numTest_def)
qed

text \<open>
  C6.  The display test grid is \<^verbatim>\<open>linspace(bounds.xMin, bounds.xMax, 300)\<close>, in the
  application component as in the canvas component.  For a visible range with
  \<open>xMin < xMax\<close> it has exactly 300 entries, is strictly increasing and evenly spaced
  (neighbours differ by \<open>(xMax - xMin) / 299\<close>), starts at \<open>xMin\<close> and ends at \<open>xMax\<close>.
\<close>

theorem testX_display_grid:
  assumes "xMin (bounds st) < xMax (bounds st)"
    and "xMin (cbounds vs) < xMax (cbounds vs)"
  shows "testX st = linspace (xMin (bounds st)) (xMax (bounds st)) 300
    \<and> length (testX st) = 300
    \<and> sorted_wrt (<) (testX st)
    \<and> list_all (\<lambda>i. testX st ! Suc i - testX st ! i
          = (xMax (bounds st) - xMin (bounds st)) / 299) [0..<299]
    \<and> hd (testX st) = xMin (bounds st)
    \<and> last (testX st) = xMax (bounds st)
    \<and> canvas_testX vs = linspace (xMin (cbounds vs)) (xMax (cbounds vs)) 300
    \<and> length (canvas_testX vs) = 300
    \<and> sorted_wrt (<) (canvas_testX vs)
    \<and> list_all (\<lambda>i. canvas_testX vs ! Suc i - canvas_testX vs ! i
          = (xMax (cbounds vs) - xMin (cbounds vs)) / 299) [0..<299]
    \<and> hd (canvas_testX vs) = xMin (cbounds vs)
    \<and> last (canvas_testX vs) = xMax (cbounds vs)"
proof -
  have "testX st = linspace (xMin (bounds st)) (xMax (bounds st)) 300"
    by (simp add: testX_def numTest_def)
  moreover have "canvas_testX vs = linspace (xMin (cbounds vs)) (xMax (cbounds vs)) 300"
    by (simp add: canvas_testX_def numTest_def)
  ultimately show ?thesis
    using display_grid [OF assms(1)] display_grid [OF assms(2)]
    by (simp add: testX_def canvas_testX_def)
qed

theorem testX_display_grid_witness:
  "xMin (bounds init_app) < xMax (bounds init_app)
   \<and> xMin (cbounds init_canvas) < xMax (cbounds init_canvas)
   \<and> length (testX init_app) = 300
   \<and> hd (testX init_app) = -3
   \<and> last (testX init_app) = 3
   \<and> sorted_wrt (<) (testX init_app)
   \<and> hd (canvas_testX init_canvas) = -3
   \<and> last (canvas_testX init_canvas) = 3"
proof -
  have "xMin (bounds init_app) < xMax (bounds init_app)"
    and "xMin (cbounds init_canvas) < xMax (cbounds init_canvas)"
    and "xMin (bounds init_app) = -3" and "xMax (bounds init_app) = 3"
    and "xMin (cbounds init_canvas) = -3" and "xMax (cbounds init_canvas) = 3"
    by (simp_all add: init_app_def init_canvas_def defaultBounds_def)
  then show ?thesis
    using testX_display_grid [of init_app init_canvas] by metis
qed

lemma last_pushSample: "pushSample s ss \<noteq> [] \<and> last (pushSample s ss) = s"
  by (cases ss) (simp_all add: pushSample_def Let_def)

lemma posterior_call:
  "gpParams st = Inr gp \<Longrightarrow> posterior g st = g (points st) (testX st) gp"
  by (simp add: posterior_def)

lemma sampleGP_call:
  "gpParams st = Inr gp \<Longrightarrow>
     sampleGP f st =
       (case f (points st) (testX st) gp of
          Inl e \<Rightarrow> Inl e
        | Inr y \<Rightarrow> Inr (st\<lparr>samples := pushSample \<lparr>sx = testX st, sy = y\<rparr> (samples st)\<rparr>))"
  by (simp add: sampleGP_def)

lemma legacy_sampleGP_call:
  "gpParams st = Inr gp \<Longrightarrow>
     legacy_sampleGP f st =
       (case f (points st) legacy_sampleX gp of
          Inl e \<Rightarrow> Inl e
        | Inr y \<Rightarrow>
            Inr (st\<lparr>samples := pushSample \<lparr>sx = legacy_sampleX, sy = y\<rparr> (samples st)\<rparr>))"
  by (simp add: legacy_sampleGP_def Let_def)

lemma stored_grid_sampleGP:
  assumes "sampleGP f st = Inr st'"
  shows "samples st' \<noteq> [] \<and> sx (last (samples st')) = testX st"
  using samples_sampleGP [OF assms] by (auto simp: last_pushSample)

lemma stored_grid_legacy_sampleGP:
  assumes "legacy_sampleGP f st = Inr st'"
  shows "samples st' \<noteq> [] \<and> sx (last (samples st')) = legacy_sampleX"
  using samples_legacy_sampleGP [OF assms] by (auto simp: last_pushSample)

text \<open>
  C3, as the code has it.  The display grid has 300 points, and it is the grid passed to
  \<^verbatim>\<open>computePosterior\<close>: the application component calls the engine on its points, on
  \<open>testX\<close> and on its parameters, and the canvas component calls it on its own \<open>testX\<close>.
  The sample action of the application component calls \<^verbatim>\<open>sampleFromGP\<close> on that same
  300-point grid \<open>testX\<close> over the visible x-range, once, and what it stores is the
  grid with the values returned for it; when the call throws it stores nothing.  The
  sample action of the earlier application component calls \<^verbatim>\<open>sampleFromGP\<close> on a
  150-point linear space over its constant range from -3 to 3.
\<close>

theorem sampling_and_display_grids:
  assumes "gpParams st = Inr gp"
  shows "testX st = linspace (xMin (bounds st)) (xMax (bounds st)) 300
   \<and> length (testX st) = 300
   \<and> canvas_testX vs = linspace (xMin (cbounds vs)) (xMax (cbounds vs)) 300
   \<and> length (canvas_testX vs) = 300
   \<and> posterior g st = g (points st) (testX st) gp
   \<and> canvas_posterior g obs cp vs = g obs (canvas_testX vs) cp
   \<and> sampleGP f st =
       (case f (points st) (testX st) gp of
          Inl e \<Rightarrow> Inl e
        | Inr y \<Rightarrow> Inr (st\<lparr>samples := pushSample \<lparr>sx = testX st, sy = y\<rparr> (samples st)\<rparr>))
   \<and> (\<forall>st'. sampleGP f st = Inr st'
        \<longrightarrow> samples st' \<noteq> [] \<and> sx (last (samples st')) = testX st)
   \<and> legacy_sampleX = linspace (-3) 3 150
   \<and> length legacy_sampleX = 150
   \<and> legacy_sampleGP f st =
       (case f (points st) legacy_sampleX gp of
          Inl e \<Rightarrow> Inl e
        | Inr y \<Rightarrow>
            Inr (st\<lparr>samples := pushSample \<lparr>sx = legacy_sampleX, sy = y\<rparr> (samples st)\<rparr>))
   \<and> (\<forall>st'. legacy_sampleGP f st = Inr st'
        \<longrightarrow> samples st' \<noteq> [] \<and> sx (last (samples st')) = legacy_sampleX)"
proof -
  have t: "testX st = linspace (xMin (bounds st)) (xMax (bounds st)) 300"
    and ct: "canvas_testX vs = linspace (xMin (cbounds vs)) (xMax (cbounds vs)) 300"
    by (simp_all add: testX_def canvas_testX_def numTest_def)
  have lt: "length (testX st) = 300" and lct: "length (canvas_testX vs) = 300"
    by (simp_all add: testX_def canvas_testX_def length_linspace numTest_def)
  have lx: "legacy_sampleX = linspace (-3) 3 150" and llx: "length legacy_sampleX = 150"
    by (simp_all add: legacy_sampleX_def legacy_bounds_def length_linspace)
  have cp: "canvas_posterior g obs cp vs = g obs (canvas_testX vs) cp"
    by (simp add: canvas_posterior_def)
  have st: "\<forall>st'. sampleGP f st = Inr st'
        \<longrightarrow> samples st' \<noteq> [] \<and> sx (last (samples st')) = testX st"
    using stored_grid_sampleGP [of f st] by blast
  have lst: "\<forall>st'. legacy_sampleGP f st = Inr st'
        \<longrightarrow> samples st' \<noteq> [] \<and> sx (last (samples st')) = legacy_sampleX"
    using stored_grid_legacy_sampleGP [of f st] by blast
  show ?thesis
    by (intro conjI t lt ct lct lx llx cp st lst posterior_call [OF assms]
        sampleGP_call [OF assms] legacy_sampleGP_call [OF assms])
qed

theorem sampling_and_display_grids_witness:
  "gpParams init_app
     = Inr \<lparr>lengthScale = 1, signalVariance = 1, noiseLevel = 1 / 10, kernel = ''rbf''\<rparr>
   \<and> posterior echo init_app = Inr (testX init_app)
   \<and> canvas_posterior echo []
        \<lparr>lengthScale = 1, signalVariance = 1, noiseLevel = 1 / 10, kernel = ''rbf''\<rparr>
        init_canvas = Inr (canvas_testX init_canvas)
   \<and> sampleGP echo init_app
       = Inr (init_app\<lparr>samples := [\<lparr>sx = testX init_app, sy = testX init_app\<rparr>]\<rparr>)
   \<and> legacy_sampleGP echo init_app
       = Inr (init_app\<lparr>samples := [\<lparr>sx = legacy_sampleX, sy = legacy_sampleX\<rparr>]\<rparr>)
   \<and> sampleGP (\<lambda>pts grid gp. Inl NotPositiveDefiniteError) init_app
       = Inl NotPositiveDefiniteError
   \<and> length (testX init_app) = 300
   \<and> length (canvas_testX init_canvas) = 300
   \<and> length legacy_sampleX = 150"
proof -
  let ?gp = "\<lparr>lengthScale = 1, signalVariance = 1, noiseLevel = 1 / 10, kernel = ''rbf''\<rparr>"
  have gp: "gpParams init_app = Inr ?gp"
    by (simp add: gpParams_def find_value_def init_app_def init_params_def)
  have s0: "samples init_app = []"
    by (simp add: init_app_def)
  from sampling_and_display_grids [OF gp, of init_canvas echo "[]" ?gp echo]
    sampling_and_display_grids
      [OF gp, of init_canvas echo "[]" ?gp "\<lambda>pts grid gp. Inl NotPositiveDefiniteError"]
    gp s0
  show ?thesis
    by (simp add: echo_def pushSample_def)
qed

text \<open>
  The claim as the spec states it fails on the application component: the grid its
  sample action passes to the sampler has 300 points, not 150.
\<close>

theorem sampling_grid_counterexample:
  "sampleGP echo init_app
     = Inr (init_app\<lparr>samples := [\<lparr>sx = testX init_app, sy = testX init_app\<rparr>]\<rparr>)
   \<and> testX init_app = linspace (-3) 3 300
   \<and> length (testX init_app) = 300
   \<and> length (testX init_app) \<noteq> 150"
  by (simp add: sampleGP_def gpParams_def find_value_def init_app_def init_params_def
      echo_def pushSample_def testX_def numTest_def length_linspace)

section \<open>Properties of the canvas component\<close>

subsection \<open>Coordinate transforms\<close>

lemma scale_round_trip:
  fixes lo hi w x :: real
  assumes "w \<noteq> 0" and "hi - lo \<noteq> 0"
  shows "((x - lo) / (hi - lo)) * w / w * (hi - lo) = x - lo"
    and "(x / w * (hi - lo)) / (hi - lo) * w = x"
  using assms by simp_all

text \<open>
  C8.  With a canvas of positive width and height and bounds with \<open>xMin < xMax\<close> and
  \<open>yMin < yMax\<close>, the transforms between data and canvas coordinates are inverse to
  each other, in both directions and on both axes, in exact real arithmetic.
\<close>

theorem transforms_round_trip:
  assumes "0 < width vs" and "0 < height vs"
    and "xMin (cbounds vs) < xMax (cbounds vs)"
    and "yMin (cbounds vs) < yMax (cbounds vs)"
  shows "toDataX vs (toCanvasX vs x) = x
    \<and> toCanvasX vs (toDataX vs cx) = cx
    \<and> toDataY vs (toCanvasY vs y) = y
    \<and> toCanvasY vs (toDataY vs cy) = cy"
proof -
  from assms have w: "width vs \<noteq> 0" and h: "height vs \<noteq> 0"
    and dx: "xMax (cbounds vs) - xMin (cbounds vs) \<noteq> 0"
    and dy: "yMax (cbounds vs) - yMin (cbounds vs) \<noteq> 0"
    by simp_all
  have "toDataX vs (toCanvasX vs x) = x"
    unfolding toDataX_def toCanvasX_def using scale_round_trip(1) [OF w dx, of x] by simp
  moreover have "toCanvasX vs (toDataX vs cx) = cx"
    unfolding toDataX_def toCanvasX_def using scale_round_trip(2) [OF w dx, of cx] by simp
  moreover have "toDataY vs (toCanvasY vs y) = y"
    unfolding toDataY_def toCanvasY_def using w h dx dy by (simp add: field_simps)
  moreover have "toCanvasY vs (toDataY vs cy) = cy"
    unfolding toDataY_def toCanvasY_def using w h dx dy by (simp add: field_simps)
  ultimately show ?thesis by simp
qed

theorem transforms_round_trip_witness:
  "0 < width (setupCanvas 800 500 init_canvas)
   \<and> 0 < height (setupCanvas 800 500 init_canvas)
   \<and> xMin (cbounds (setupCanvas 800 500 init_canvas))
       < xMax (cbounds (setupCanvas 800 500 init_canvas))
   \<and> yMin (cbounds (setupCanvas 800 500 init_canvas))
       < yMax (cbounds (setupCanvas 800 500 init_canvas))
   \<and> toCanvasX (setupCanvas 800 500 init_canvas) 0 = 400
   \<and> toDataX (setupCanvas 800 500 init_canvas) 400 = 0
   \<and> toCanvasY (setupCanvas 800 500 init_canvas) 1 = 125
   \<and> toDataY (setupCanvas 800 500 init_canvas) 125 = 1
   \<and> toDataX (setupCanvas 800 500 init_canvas)
        (toCanvasX (setupCanvas 800 500 init_canvas) 0) = 0
   \<and> toCanvasY (setupCanvas 800 500 init_canvas)
        (toDataY (setupCanvas 800 500 init_canvas) 125) = 125"
  using transforms_round_trip [of "setupCanvas 800 500 init_canvas" 0 400 1 125]
  by (simp add: setupCanvas_def init_canvas_def defaultBounds_def toCanvasX_def toDataX_def
      toCanvasY_def toDataY_def)

subsection \<open>Zoom level\<close>

lemma zoom_limits: "MIN_ZOOM = 1 / 4" "MAX_ZOOM = 3"
  by (simp_all add: MIN_ZOOM_def MAX_SCALE_FACTOR_def MAX_ZOOM_def)

lemma clamp_zoom:
  "MIN_ZOOM \<le> max MIN_ZOOM (min MAX_ZOOM z) \<and> max MIN_ZOOM (min MAX_ZOOM z) \<le> MAX_ZOOM"
  by (simp add: zoom_limits)

lemma zoomLevel_updateBounds: "zoomLevel (updateBounds vs) = zoomLevel vs"
  by (simp add: updateBounds_def Let_def)

lemma zoomLevel_panBy: "zoomLevel (panBy dx dy vs) = zoomLevel vs"
  by (simp add: panBy_def Let_def)

lemma zoom_ok_handleWheel: "zoom_ok vs \<Longrightarrow> zoom_ok (handleWheel cx cy l t d vs)"
  using clamp_zoom [of "zoomLevel vs * (if d > 0 then 9 / 10 else 11 / 10)"]
  by (simp add: zoom_ok_def handleWheel_def Let_def zoomLevel_updateBounds)

lemma zoom_ok_handleMouseMove: "zoom_ok vs \<Longrightarrow> zoom_ok (handleMouseMove ox oy vs)"
  by (simp add: zoom_ok_def handleMouseMove_def Let_def zoomLevel_updateBounds zoomLevel_panBy)

lemma zoom_ok_handleTouchMove: "zoom_ok vs \<Longrightarrow> zoom_ok (handleTouchMove ts vs)"
  using clamp_zoom [of "zoomLevel vs * (touchDistance ts / initialTouchDistance vs)"]
  by (simp add: zoom_ok_def handleTouchMove_def Let_def zoomLevel_updateBounds zoomLevel_panBy)

lemma zoom_ok_handleDoubleClick: "zoom_ok (handleDoubleClick vs)"
  by (simp add: zoom_ok_def handleDoubleClick_def zoomLevel_updateBounds zoom_limits)

lemma zoom_ok_step: "zoom_ok vs \<Longrightarrow> zoom_ok (canvas_step e vs)"
proof (cases e)
  case (Click ox oy)
  assume "zoom_ok vs"
  with Click show ?thesis
    by (simp add: zoom_ok_def handleClick_def)
next
  case (Wheel cx cy l t d)
  assume "zoom_ok vs"
  with Wheel show ?thesis by (simp add: zoom_ok_handleWheel)
next
  case (MouseDown n ox oy)
  assume "zoom_ok vs"
  with MouseDown show ?thesis by (simp add: zoom_ok_def handleMouseDown_def)
next
  case (MouseMove ox oy)
  assume "zoom_ok vs"
  with MouseMove show ?thesis by (simp add: zoom_ok_handleMouseMove)
next
  case MouseUp
  assume "zoom_ok vs"
  with MouseUp show ?thesis by (simp add: zoom_ok_def handleMouseUp_def)
next
  case MouseLeave
  assume "zoom_ok vs"
  with MouseLeave show ?thesis by (simp add: zoom_ok_def handleMouseUp_def)
next
  case DoubleClick
  then show ?thesis by (simp add: zoom_ok_handleDoubleClick)
next
  case (TouchStart ts)
  assume "zoom_ok vs"
  with TouchStart show ?thesis by (simp add: zoom_ok_def handleTouchStart_def)
next
  case (TouchMove ts)
  assume "zoom_ok vs"
  with TouchMove show ?thesis by (simp add: zoom_ok_handleTouchMove)
next
  case TouchEnd
  assume "zoom_ok vs"
  with TouchEnd show ?thesis by (simp add: zoom_ok_def handleTouchEnd_def)
next
  case (Resize w h)
  assume "zoom_ok vs"
  with Resize show ?thesis by (simp add: zoom_ok_def setupCanvas_def)
qed

lemma zoom_ok_run: "zoom_ok vs \<Longrightarrow> zoom_ok (canvas_run es vs)"
  by (induction es arbitrary: vs) (simp_all add: zoom_ok_step)

lemma zoom_ok_init: "zoom_ok init_canvas"
  by (simp add: zoom_ok_def init_canvas_def zoom_limits)

lemma handleDoubleClick_reset:
  "zoomLevel (handleDoubleClick vs) = 1
   \<and> panOffset (handleDoubleClick vs) = \<lparr>vx = 0, vy = 0\<rparr>
   \<and> cbounds (handleDoubleClick vs) = defaultBounds"
  by (simp add: handleDoubleClick_def updateBounds_def Let_def defaultBounds_def)

text \<open>
  C9.  The zoom limits are 0.25 and 3.  From the initial state, where the zoom level is
  1, the zoom level stays between the limits after every sequence of canvas events
  (click, wheel, mouse, double-click, touch, resize).  A double-click sets the zoom
  level to exactly 1, the pan offset to (0, 0) and the bounds to the default bounds,
  from any state.
\<close>

theorem zoom_level_invariant:
  "MIN_ZOOM = 1 / 4 \<and> MAX_ZOOM = 3
   \<and> zoomLevel init_canvas = 1
   \<and> 1 / 4 \<le> zoomLevel (canvas_run es init_canvas)
   \<and> zoomLevel (canvas_run es init_canvas) \<le> 3
   \<and> zoomLevel (handleDoubleClick vs) = 1
   \<and> panOffset (handleDoubleClick vs) = \<lparr>vx = 0, vy = 0\<rparr>
   \<and> cbounds (handleDoubleClick vs) = defaultBounds
   \<and> canvas_step DoubleClick vs = handleDoubleClick vs"
proof -
  have "zoom_ok (canvas_run es init_canvas)"
    using zoom_ok_init by (rule zoom_ok_run)
  then have "1 / 4 \<le> zoomLevel (canvas_run es init_canvas)"
    and "zoomLevel (canvas_run es init_canvas) \<le> 3"
    by (simp_all add: zoom_ok_def zoom_limits)
  moreover have "zoomLevel init_canvas = 1"
    by (simp add: init_canvas_def)
  ultimately show ?thesis
    using handleDoubleClick_reset [of vs] by (simp add: zoom_limits)
qed

subsection \<open>Ordered bounds\<close>

text \<open>
  Every state the canvas component reaches has ordered bounds: the bounds are only ever
  set by \<^verbatim>\<open>updateBounds\<close>, from a positive zoom level.
\<close>

lemma ordered_updateBounds:
  assumes "0 < zoomLevel vs"
  shows "bounds_ordered (cbounds (updateBounds vs))"
proof -
  from assms have "0 < 6 / (2 * zoomLevel vs)" and "0 < 4 / (2 * zoomLevel vs)"
    by simp_all
  then show ?thesis
    by (simp add: bounds_ordered_def updateBounds_def Let_def defaultBounds_def)
qed

lemma zoom_ok_pos: "zoom_ok vs \<Longrightarrow> 0 < zoomLevel vs"
  by (simp add: zoom_ok_def zoom_limits)

lemma clamp_zoom_pos: "0 < max MIN_ZOOM (min MAX_ZOOM z)"
  using clamp_zoom [of z] by (simp add: zoom_limits)

lemma ordered_handleWheel:
  "bounds_ordered (cbounds vs) \<Longrightarrow> bounds_ordered (cbounds (handleWheel cx cy l t d vs))"
  using clamp_zoom_pos [of "zoomLevel vs * (if d > 0 then 9 / 10 else 11 / 10)"]
  by (simp add: handleWheel_def Let_def ordered_updateBounds)

lemma ordered_handleMouseMove:
  "zoom_ok vs \<Longrightarrow> bounds_ordered (cbounds vs)
     \<Longrightarrow> bounds_ordered (cbounds (handleMouseMove ox oy vs))"
  by (simp add: handleMouseMove_def Let_def ordered_updateBounds zoomLevel_panBy zoom_ok_pos)

lemma ordered_handleTouchMove:
  "zoom_ok vs \<Longrightarrow> bounds_ordered (cbounds vs)
     \<Longrightarrow> bounds_ordered (cbounds (handleTouchMove ts vs))"
  using clamp_zoom_pos [of "zoomLevel vs * (touchDistance ts / initialTouchDistance vs)"]
  by (simp add: handleTouchMove_def Let_def ordered_updateBounds zoomLevel_panBy zoom_ok_pos)

lemma ordered_handleDoubleClick: "bounds_ordered (cbounds (handleDoubleClick vs))"
  by (simp add: handleDoubleClick_def ordered_updateBounds)

lemma ordered_step:
  assumes "zoom_ok vs" and "bounds_ordered (cbounds vs)"
  shows "bounds_ordered (cbounds (canvas_step e vs))"
  using assms
  by (cases e)
     (simp_all add: ordered_handleWheel ordered_handleMouseMove ordered_handleTouchMove
        ordered_handleDoubleClick handleClick_def handleMouseDown_def handleMouseUp_def
        handleTouchStart_def handleTouchEnd_def setupCanvas_def)

lemma ordered_run:
  "zoom_ok vs \<Longrightarrow> bounds_ordered (cbounds vs)
     \<Longrightarrow> bounds_ordered (cbounds (canvas_run es vs))"
  by (induction es arbitrary: vs) (simp_all add: ordered_step zoom_ok_step)

lemma ordered_reachable: "bounds_ordered (cbounds (canvas_run es init_canvas))"
proof -
  have "bounds_ordered (cbounds init_canvas)"
    by (simp add: bounds_ordered_def init_canvas_def defaultBounds_def)
  with zoom_ok_init show ?thesis by (rule ordered_run)
qed

section \<open>Properties of the GP engine\<close>

subsection \<open>The prior\<close>

lemma kernelFn_self:
  assumes "0 < lengthScale ps"
  shows "kernelFn ps t t = signalVariance ps"
  using assms
  by (cases "kernel ps")
     (simp_all add: kernelFn_def rbf_def matern12_def matern32_def matern52_def)

lemma cholesky_empty: "cholesky [] = Inr []"
  by (simp add: cholesky_def is_square_def)

lemma posteriorFromData_empty:
  assumes "valid_params ps"
  shows "posteriorFromData ps [] [] ts
    = Inr \<lparr>mean = replicate (length ts) 0,
           variance = replicate (length ts) (signalVariance ps)\<rparr>"
proof -
  from assms have l: "0 < lengthScale ps" and v: "0 < signalVariance ps"
    by (simp_all add: valid_params_def)
  have K: "covK ps [] = []" and Ks: "crossK ps [] ts = []"
    by (simp_all add: covK_def crossK_def)
  have m: "map (\<lambda>j. dot (column [] j) (choleskySolve [] [])) [0..<length ts]
      = replicate (length ts) 0"
    by (simp add: column_def dot_def map_replicate_const)
  have "map (\<lambda>j. max 0 (kernelFn ps (ts ! j) (ts ! j)
                 - dot (solveL [] (column [] j)) (solveL [] (column [] j)))) [0..<length ts]
      = map (\<lambda>j. signalVariance ps) [0..<length ts]"
    using v by (simp add: column_def solveL_def dot_def kernelFn_self [OF l])
  then have va: "map (\<lambda>j. max 0 (kernelFn ps (ts ! j) (ts ! j)
                 - dot (solveL [] (column [] j)) (solveL [] (column [] j)))) [0..<length ts]
      = replicate (length ts) (signalVariance ps)"
    by (simp add: map_replicate_const)
  show ?thesis
    unfolding posteriorFromData_def K Ks cholesky_empty
    by (simp add: Let_def m va)
qed

text \<open>
  C1.  For a valid parameter record and any test grid, \<^verbatim>\<open>computePosterior\<close> on an
  empty sequence of observations returns, and returns the prior: the mean is 0 and the
  variance is \<open>signalVariance\<close> at every test point.  The general algorithm of step 2,
  run on no data, gives the same result.
\<close>

theorem computePosterior_prior:
  assumes "valid_params ps"
  shows "computePosterior [] ts ps
      = Inr \<lparr>mean = replicate (length ts) 0,
             variance = replicate (length ts) (signalVariance ps)\<rparr>
    \<and> posteriorFromData ps [] [] ts = computePosterior [] ts ps"
proof -
  have "computePosterior [] ts ps
      = Inr \<lparr>mean = replicate (length ts) 0,
             variance = replicate (length ts) (signalVariance ps)\<rparr>"
    by (simp add: computePosterior_def map_replicate_const)
  with posteriorFromData_empty [OF assms, of ts] show ?thesis by simp
qed

theorem computePosterior_prior_witness:
  "valid_params \<lparr>lengthScale = 1, signalVariance = 2, noiseLevel = 1 / 10, kernel = Matern32\<rparr>
   \<and> computePosterior [] [-1, 0, 1]
        \<lparr>lengthScale = 1, signalVariance = 2, noiseLevel = 1 / 10, kernel = Matern32\<rparr>
      = Inr \<lparr>mean = [0, 0, 0], variance = [2, 2, 2]\<rparr>"
  using computePosterior_prior
    [of "\<lparr>lengthScale = 1, signalVariance = 2, noiseLevel = 1 / 10, kernel = Matern32\<rparr>"
      "[-1, 0, 1]"]
  by (simp add: valid_params_def numeral_eq_Suc)

subsection \<open>Shape and sign of the posterior\<close>

text \<open>
  C2.  For a valid parameter record, whenever \<^verbatim>\<open>computePosterior\<close> returns a result,
  its mean and its variance have as many entries as the test grid, and every variance
  entry is non-negative.
\<close>

theorem computePosterior_shape:
  assumes "valid_params ps"
    and "computePosterior observations ts ps = Inr r"
  shows "length (mean r) = length ts
    \<and> length (variance r) = length ts
    \<and> list_all (\<lambda>v. 0 \<le> v) (variance r)"
proof (cases "observations = []")
  case True
  with assms(2) have "r = \<lparr>mean = map (\<lambda>t. 0) ts, variance = map (\<lambda>t. signalVariance ps) ts\<rparr>"
    by (simp add: computePosterior_def)
  moreover from assms(1) have "0 \<le> signalVariance ps"
    by (simp add: valid_params_def)
  ultimately show ?thesis
    by (simp add: list_all_iff)
next
  case False
  with assms(2) obtain L where
    "r = \<lparr>mean = map (\<lambda>j. dot (column (crossK ps (map px observations) ts) j)
                          (choleskySolve L (map py observations))) [0..<length ts],
          variance = map (\<lambda>j. let v = solveL L (column (crossK ps (map px observations) ts) j)
                              in max 0 (kernelFn ps (ts ! j) (ts ! j) - dot v v))
                       [0..<length ts]\<rparr>"
    by (auto simp: computePosterior_def posteriorFromData_def Let_def split: sum.splits)
  then show ?thesis
    by (simp add: list_all_iff Let_def)
qed

theorem computePosterior_shape_witness:
  "valid_params \<lparr>lengthScale = 1, signalVariance = 3, noiseLevel = 1, kernel = Rbf\<rparr>
   \<and> computePosterior [\<lparr>px = 0, py = 1\<rparr>] [0]
        \<lparr>lengthScale = 1, signalVariance = 3, noiseLevel = 1, kernel = Rbf\<rparr>
      = Inr \<lparr>mean = [3 / 4], variance = [3 / 4]\<rparr>
   \<and> length (mean \<lparr>mean = [3 / 4], variance = [3 / 4 :: real]\<rparr>) = length [0 :: real]
   \<and> list_all (\<lambda>v. 0 \<le> v) (variance \<lparr>mean = [3 / 4], variance = [3 / 4 :: real]\<rparr>)"
proof -
  let ?ps = "\<lparr>lengthScale = 1, signalVariance = 3, noiseLevel = 1, kernel = Rbf\<rparr>"
  have v: "valid_params ?ps"
    by (simp add: valid_params_def)
  have k: "kernelFn ?ps 0 0 = 3"
    by (simp add: kernelFn_def rbf_def)
  have K: "covK ?ps [0] = [[4]]" and Ks: "crossK ?ps [0] [0] = [[3]]"
    by (simp_all add: covK_def crossK_def k)
  have c: "cholesky [[4]] = Inr [[2]]"
    by (simp add: cholesky_def is_square_def chol_step_def chol_pivot_def row_prefix_def
        dot_def)
  have e: "computePosterior [\<lparr>px = 0, py = 1\<rparr>] [0] ?ps
      = Inr \<lparr>mean = [3 / 4], variance = [3 / 4]\<rparr>"
    by (simp add: computePosterior_def posteriorFromData_def K Ks c k column_def
        choleskySolve_def solveL_def solveLt_def dot_def)
  from computePosterior_shape [OF v e] v e show ?thesis by simp
qed

subsection \<open>Failure of the factorisation\<close>

lemma chol_step_fail: "chol_pivot A L \<le> 0 \<Longrightarrow> chol_step A L = Inl NotPositiveDefiniteError"
  by (simp add: chol_step_def Let_def)

lemma chol_step_Inl:
  "chol_step A L = Inl e \<Longrightarrow> e = NotPositiveDefiniteError \<and> chol_pivot A L \<le> 0"
  by (auto simp: chol_step_def Let_def split: if_splits)

lemma chol_loop_add:
  "chol_loop A (m + k) L
     = (case chol_loop A m L of Inl e \<Rightarrow> Inl e | Inr L' \<Rightarrow> chol_loop A k L')"
  by (induction m arbitrary: L) (simp_all split: sum.splits)

lemma chol_loop_Inl:
  "chol_loop A k L0 = Inl e \<Longrightarrow>
     e = NotPositiveDefiniteError
     \<and> (\<exists>m L. m < k \<and> chol_loop A m L0 = Inr L \<and> chol_pivot A L \<le> 0)"
proof (induction k arbitrary: L0)
  case 0
  then show ?case by simp
next
  case (Suc k)
  show ?case
  proof (cases "chol_step A L0")
    case (Inl e')
    with Suc.prems have "e' = e" by simp
    with Inl chol_step_Inl [of A L0 e'] have "e = NotPositiveDefiniteError"
      and "chol_pivot A L0 \<le> 0" by simp_all
    moreover have "chol_loop A 0 L0 = Inr L0" by simp
    ultimately show ?thesis by blast
  next
    case (Inr L1)
    with Suc.prems have "chol_loop A k L1 = Inl e" by simp
    from Suc.IH [OF this] obtain m L where e: "e = NotPositiveDefiniteError"
      and m: "m < k" and run: "chol_loop A m L1 = Inr L" and piv: "chol_pivot A L \<le> 0"
      by blast
    from Inr run have "chol_loop A (Suc m) L0 = Inr L" by simp
    with e m piv show ?thesis by (intro conjI exI [of _ "Suc m"] exI [of _ L]) simp_all
  qed
qed

lemma length_foldl_snoc:
  "length (foldl (\<lambda>r j. r @ [g r j]) acc js) = length acc + length js"
  by (induction js arbitrary: acc) simp_all

lemma length_row_prefix: "length (row_prefix A L i) = i"
  by (simp add: row_prefix_def length_foldl_snoc)

lemma chol_step_Inr:
  assumes "chol_step A L = Inr L'"
  shows "length L' = Suc (length L)"
    and "i < length L \<Longrightarrow> L' ! i = L ! i"
    and "0 < L' ! length L ! length L"
proof -
  let ?r = "row_prefix A L (length L)"
  from assms have pos: "0 < chol_pivot A L"
    and L': "L' = L @ [?r @ sqrt (chol_pivot A L) # replicate (length A - Suc (length L)) 0]"
    by (auto simp: chol_step_def Let_def split: if_splits)
  show "length L' = Suc (length L)"
    by (simp add: L')
  show "i < length L \<Longrightarrow> L' ! i = L ! i"
    by (simp add: L' nth_append)
  have "L' ! length L = ?r @ sqrt (chol_pivot A L) # replicate (length A - Suc (length L)) 0"
    by (simp add: L')
  then have "L' ! length L ! length L = sqrt (chol_pivot A L)"
    using length_row_prefix [of A L "length L"] by (simp add: nth_append)
  with pos show "0 < L' ! length L ! length L"
    by simp
qed

lemma chol_loop_Inr:
  assumes "chol_loop A k L = Inr L'" and "\<forall>i<length L. 0 < L ! i ! i"
  shows "length L' = length L + k \<and> (\<forall>i<length L'. 0 < L' ! i ! i)"
  using assms
proof (induction k arbitrary: L)
  case 0
  then show ?case by simp
next
  case (Suc k)
  from Suc.prems(1) obtain L1 where step: "chol_step A L = Inr L1"
    and rest: "chol_loop A k L1 = Inr L'"
    by (auto split: sum.splits)
  have "\<forall>i<length L1. 0 < L1 ! i ! i"
  proof (intro allI impI)
    fix i assume "i < length L1"
    then have "i < length L \<or> i = length L"
      using chol_step_Inr(1) [OF step] by auto
    then show "0 < L1 ! i ! i"
      using chol_step_Inr(2) [OF step, of i] chol_step_Inr(3) [OF step] Suc.prems(2)
      by auto
  qed
  from Suc.IH [OF rest this] chol_step_Inr(1) [OF step] show ?case
    by simp
qed

lemma cholesky_Inr:
  assumes "cholesky A = Inr L"
  shows "length L = length A \<and> list_all (\<lambda>i. 0 < L ! i ! i) [0..<length A]"
proof -
  from assms have "chol_loop A (length A) [] = Inr L"
    by (simp add: cholesky_def split: if_splits)
  from chol_loop_Inr [OF this] show ?thesis
    by (simp add: list_all_iff)
qed

lemma cholesky_pivot_fails:
  assumes "is_square A" and "m < length A"
    and "chol_loop A m [] = Inr L" and "chol_pivot A L \<le> 0"
  shows "cholesky A = Inl NotPositiveDefiniteError"
proof -
  from assms(2) obtain k where "length A = Suc (m + k)"
    by (auto dest: less_imp_Suc_add)
  then have n: "length A = m + Suc k"
    by simp
  have "cholesky A = chol_loop A (length A) []"
    using assms(1) by (simp add: cholesky_def)
  also have "\<dots> = chol_loop A (m + Suc k) []"
    by (simp only: n)
  also have "\<dots> = (case chol_loop A m [] of Inl e \<Rightarrow> Inl e | Inr L' \<Rightarrow> chol_loop A (Suc k) L')"
    by (rule chol_loop_add)
  also have "\<dots> = chol_loop A (Suc k) L"
    by (simp only: assms(3) sum.case)
  also have "\<dots> = Inl NotPositiveDefiniteError"
    by (simp only: chol_loop.simps chol_step_fail [OF assms(4)] sum.case)
  finally show ?thesis .
qed

lemma cholesky_Inl_square:
  assumes "is_square A" and "cholesky A = Inl e"
  shows "e = NotPositiveDefiniteError
    \<and> (\<exists>m L. m < length A \<and> chol_loop A m [] = Inr L \<and> chol_pivot A L \<le> 0)"
proof -
  from assms have "chol_loop A (length A) [] = Inl e"
    by (simp add: cholesky_def)
  then show ?thesis by (rule chol_loop_Inl)
qed

lemma is_square_covK: "is_square (covK ps xs)"
  by (simp add: is_square_def covK_def list_all_iff)

lemma computePosterior_Inl:
  assumes "computePosterior observations ts ps = Inl e"
  shows "observations \<noteq> [] \<and> cholesky (covK ps (map px observations)) = Inl e
    \<and> e = NotPositiveDefiniteError"
proof -
  from assms have ne: "observations \<noteq> []"
    by (auto simp: computePosterior_def split: if_splits)
  with assms have c: "cholesky (covK ps (map px observations)) = Inl e"
    by (auto simp: computePosterior_def posteriorFromData_def Let_def split: sum.splits)
  from cholesky_Inl_square [OF is_square_covK c] ne c show ?thesis by simp
qed

lemma computePosterior_propagates:
  assumes "observations \<noteq> []" and "cholesky (covK ps (map px observations)) = Inl e"
  shows "computePosterior observations ts ps = Inl e"
  using assms by (simp add: computePosterior_def posteriorFromData_def)

lemma is_square_addJitter: "is_square (addJitter S)"
  by (simp add: is_square_def addJitter_def list_all_iff)

lemma posteriorMoments_Inl:
  assumes "posteriorMoments ps observations ts = Inl e"
  shows "observations \<noteq> [] \<and> cholesky (covK ps (map px observations)) = Inl e"
  using assms
  by (auto simp: posteriorMoments_def Let_def split: if_splits sum.splits)

lemma sampleFromGP_Inl:
  assumes "sampleFromGP observations ts ps z = Inl e"
  shows "e = NotPositiveDefiniteError"
proof (cases "posteriorMoments ps observations ts")
  case (Inl e')
  with assms have "e' = e"
    by (simp add: sampleFromGP_def)
  with Inl posteriorMoments_Inl [of ps observations ts e]
  have "cholesky (covK ps (map px observations)) = Inl e" by simp
  from cholesky_Inl_square [OF is_square_covK this] show ?thesis by simp
next
  case (Inr r)
  obtain mu S where r: "r = (mu, S)" by (cases r)
  with Inr assms have "cholesky (addJitter S) = Inl e"
    by (simp add: sampleFromGP_def split: sum.splits)
  from cholesky_Inl_square [OF is_square_addJitter this] show ?thesis by simp
qed

lemma sampleFromGP_propagates:
  assumes "observations \<noteq> []" and "cholesky (covK ps (map px observations)) = Inl e"
  shows "sampleFromGP observations ts ps z = Inl e"
  using assms by (simp add: sampleFromGP_def posteriorMoments_def)

lemma sampleFromGP_propagates_sample:
  assumes "posteriorMoments ps observations ts = Inr (mu, S)"
    and "cholesky (addJitter S) = Inl e"
  shows "sampleFromGP observations ts ps z = Inl e"
  using assms by (simp add: sampleFromGP_def)

lemma sampleFromGP_Inr:
  assumes "sampleFromGP observations ts ps z = Inr y"
  shows "length y = length ts"
  using assms by (auto simp: sampleFromGP_def split: sum.splits prod.splits)

text \<open>
  C5.  The factorisation of a square matrix fails with \<open>NotPositiveDefiniteError\<close>
  whenever, after some number of rows has been built, the next diagonal pivot is not
  positive, and it fails with that error in no other case; when it returns, every
  diagonal entry of the factor is positive, so that the substitutions never divide by
  zero.  Both operations of the engine propagate the failure.  When the factorisation
  of the covariance matrix of the observations fails, \<^verbatim>\<open>computePosterior\<close> and
  \<^verbatim>\<open>sampleFromGP\<close> return that error and no result, and so does \<^verbatim>\<open>sampleFromGP\<close> when
  the factorisation of the sample covariance fails; \<open>NotPositiveDefiniteError\<close> is the
  only error either of them returns, and a sample that is returned has one value for
  each sample point.
\<close>

theorem cholesky_fails_on_nonpositive_pivot:
  "(is_square A \<and> m < length A \<and> chol_loop A m [] = Inr L \<and> chol_pivot A L \<le> 0
      \<longrightarrow> cholesky A = Inl NotPositiveDefiniteError)
   \<and> (cholesky A = Inl NotPositiveDefiniteError
      \<longrightarrow> (\<exists>m L. m < length A \<and> chol_loop A m [] = Inr L \<and> chol_pivot A L \<le> 0))
   \<and> (cholesky A = Inr L'
      \<longrightarrow> length L' = length A \<and> list_all (\<lambda>i. 0 < L' ! i ! i) [0..<length A])
   \<and> (observations \<noteq> [] \<and> cholesky (covK ps (map px observations)) = Inl e
      \<longrightarrow> computePosterior observations ts ps = Inl e)
   \<and> (computePosterior observations ts ps = Inl e
      \<longrightarrow> e = NotPositiveDefiniteError
          \<and> cholesky (covK ps (map px observations)) = Inl NotPositiveDefiniteError)
   \<and> (observations \<noteq> [] \<and> cholesky (covK ps (map px observations)) = Inl e
      \<longrightarrow> sampleFromGP observations ts ps z = Inl e)
   \<and> (posteriorMoments ps observations ts = Inr (mu, S) \<and> cholesky (addJitter S) = Inl e
      \<longrightarrow> sampleFromGP observations ts ps z = Inl e)
   \<and> (sampleFromGP observations ts ps z = Inl e \<longrightarrow> e = NotPositiveDefiniteError)
   \<and> (sampleFromGP observations ts ps z = Inr y \<longrightarrow> length y = length ts)"
proof (intro conjI impI)
  assume "is_square A \<and> m < length A \<and> chol_loop A m [] = Inr L \<and> chol_pivot A L \<le> 0"
  then show "cholesky A = Inl NotPositiveDefiniteError"
    using cholesky_pivot_fails by blast
next
  assume f: "cholesky A = Inl NotPositiveDefiniteError"
  then have "is_square A"
    by (simp add: cholesky_def split: if_splits)
  from cholesky_Inl_square [OF this f]
  show "\<exists>m L. m < length A \<and> chol_loop A m [] = Inr L \<and> chol_pivot A L \<le> 0"
    by simp
next
  assume ok: "cholesky A = Inr L'"
  from cholesky_Inr [OF ok] show "length L' = length A" by simp
  from cholesky_Inr [OF ok] show "list_all (\<lambda>i. 0 < L' ! i ! i) [0..<length A]" by simp
next
  assume "observations \<noteq> [] \<and> cholesky (covK ps (map px observations)) = Inl e"
  then show "computePosterior observations ts ps = Inl e"
    using computePosterior_propagates by blast
next
  assume f: "computePosterior observations ts ps = Inl e"
  from computePosterior_Inl [OF f] show "e = NotPositiveDefiniteError" by simp
  from computePosterior_Inl [OF f]
  show "cholesky (covK ps (map px observations)) = Inl NotPositiveDefiniteError" by simp
next
  assume "observations \<noteq> [] \<and> cholesky (covK ps (map px observations)) = Inl e"
  then show "sampleFromGP observations ts ps z = Inl e"
    using sampleFromGP_propagates by blast
next
  assume "posteriorMoments ps observations ts = Inr (mu, S) \<and> cholesky (addJitter S) = Inl e"
  then show "sampleFromGP observations ts ps z = Inl e"
    using sampleFromGP_propagates_sample by blast
next
  assume "sampleFromGP observations ts ps z = Inl e"
  then show "e = NotPositiveDefiniteError" by (rule sampleFromGP_Inl)
next
  assume "sampleFromGP observations ts ps z = Inr y"
  then show "length y = length ts" by (rule sampleFromGP_Inr)
qed

theorem cholesky_fails_on_nonpositive_pivot_witness:
  "is_square [[1, 1], [1, 1]]
   \<and> chol_loop [[1, 1], [1, 1]] 1 [] = Inr [[1, 0]]
   \<and> chol_pivot [[1, 1], [1, 1]] [[1, 0]] \<le> 0
   \<and> cholesky [[1, 1], [1, 1]] = Inl NotPositiveDefiniteError
   \<and> covK \<lparr>lengthScale = 1, signalVariance = 1, noiseLevel = 0, kernel = Rbf\<rparr> [0, 0]
       = [[1, 1], [1, 1]]
   \<and> computePosterior [\<lparr>px = 0, py = 1\<rparr>, \<lparr>px = 0, py = 2\<rparr>] [0]
        \<lparr>lengthScale = 1, signalVariance = 1, noiseLevel = 0, kernel = Rbf\<rparr>
       = Inl NotPositiveDefiniteError
   \<and> sampleFromGP [\<lparr>px = 0, py = 1\<rparr>, \<lparr>px = 0, py = 2\<rparr>] [0]
        \<lparr>lengthScale = 1, signalVariance = 1, noiseLevel = 0, kernel = Rbf\<rparr> (\<lambda>i. 1)
       = Inl NotPositiveDefiniteError
   \<and> posteriorMoments
        \<lparr>lengthScale = 1, signalVariance = - jitter, noiseLevel = 0, kernel = Rbf\<rparr> [] [0]
       = Inr ([0], [[- jitter]])
   \<and> cholesky (addJitter [[- jitter]]) = Inl NotPositiveDefiniteError
   \<and> sampleFromGP [] [0]
        \<lparr>lengthScale = 1, signalVariance = - jitter, noiseLevel = 0, kernel = Rbf\<rparr> (\<lambda>i. 1)
       = Inl NotPositiveDefiniteError
   \<and> sampleFromGP [] [0]
        \<lparr>lengthScale = 1, signalVariance = 4 - jitter, noiseLevel = 0, kernel = Rbf\<rparr> (\<lambda>i. 1)
       = Inr [2]
   \<and> cholesky [[4]] = Inr [[2]]
   \<and> 0 < [[2 :: real]] ! 0 ! 0"
proof -
  let ?A = "[[1, 1], [1, 1 :: real]]"
  let ?ps = "\<lparr>lengthScale = 1, signalVariance = 1, noiseLevel = 0, kernel = Rbf\<rparr>"
  let ?qs = "\<lparr>lengthScale = 1, signalVariance = - jitter, noiseLevel = 0, kernel = Rbf\<rparr>"
  let ?rs = "\<lparr>lengthScale = 1, signalVariance = 4 - jitter, noiseLevel = 0, kernel = Rbf\<rparr>"
  let ?obs = "[\<lparr>px = 0, py = 1\<rparr>, \<lparr>px = 0, py = 2\<rparr>]"
  have sq: "is_square ?A"
    by (simp add: is_square_def)
  have run: "chol_loop ?A 1 [] = Inr [[1, 0]]"
    by (simp add: chol_step_def chol_pivot_def row_prefix_def dot_def)
  have piv: "chol_pivot ?A [[1, 0]] \<le> 0"
    by (simp add: chol_pivot_def row_prefix_def dot_def)
  have K: "covK ?ps [0, 0] = ?A"
    by (simp add: covK_def kernelFn_def rbf_def)
  have ok: "cholesky [[4]] = Inr [[2]]"
    by (simp add: cholesky_def is_square_def chol_step_def chol_pivot_def row_prefix_def
        dot_def)
  have pm: "posteriorMoments ?qs [] [0] = Inr ([0], [[- jitter]])"
    by (simp add: posteriorMoments_def kernelFn_def rbf_def)
  have cj: "cholesky (addJitter [[- jitter]]) = Inl NotPositiveDefiniteError"
    by (simp add: addJitter_def cholesky_def is_square_def chol_step_def chol_pivot_def
        row_prefix_def dot_def)
  have pr: "posteriorMoments ?rs [] [0] = Inr ([0], [[4 - jitter]])"
    by (simp add: posteriorMoments_def kernelFn_def rbf_def)
  have aj: "addJitter [[4 - jitter]] = [[4]]"
    by (simp add: addJitter_def)
  have good: "sampleFromGP [] [0] ?rs (\<lambda>i. 1) = Inr [2]"
    by (simp add: sampleFromGP_def pr aj ok dot_def)
  from cholesky_fails_on_nonpositive_pivot
    [of ?A 1 "[[1, 0]]" "[]" ?obs ?ps NotPositiveDefiniteError "[0]" "\<lambda>i. 1" "[]" "[]" "[]"]
    sq run piv K
  have "cholesky ?A = Inl NotPositiveDefiniteError"
    and "computePosterior ?obs [0] ?ps = Inl NotPositiveDefiniteError"
    and "sampleFromGP ?obs [0] ?ps (\<lambda>i. 1) = Inl NotPositiveDefiniteError"
    by simp_all
  moreover from cholesky_fails_on_nonpositive_pivot
    [of "[]" 0 "[]" "[]" "[]" ?qs NotPositiveDefiniteError "[0]" "\<lambda>i. 1" "[0]" "[[- jitter]]"
      "[]"] pm cj
  have "sampleFromGP [] [0] ?qs (\<lambda>i. 1) = Inl NotPositiveDefiniteError"
    by simp
  ultimately show ?thesis
    using sq run piv K ok pm cj good by simp
qed

end
